theory Spec2Isabelle
  imports Complex_Main
begin

section \<open>JavaScript values as the route handlers see them\<close>

text \<open>
  The handlers of \<^verbatim>\<open>/api/report\<close> and \<^verbatim>\<open>/api/report/[id]\<close> receive a JSON body and
  test its members with JavaScript's own notions of truthiness, \<^verbatim>\<open>!== undefined\<close>,
  \<^verbatim>\<open>Array.prototype.includes\<close> and \<^verbatim>\<open>for ... of\<close>. The model therefore keeps the
  dynamic values: \<open>Undefined\<close> is what reading an absent member gives.

  A number is the value of the parsed double. The handlers never calculate with a body
  number, they only test whether it is zero, so the infinities (which behave like any
  non-zero number there) are not represented. A string is a sequence of code units in the
  range 0 to 255.
\<close>

datatype jsval =
    Undefined
  | Null
  | Bool bool
  | Num rat
  | Str string
  | Arr "jsval list"
  | Obj "(string \<times> jsval) list"

text \<open>\<^verbatim>\<open>!v\<close> is \<open>\<not> truthy v\<close>. Arrays and objects are truthy also when empty.\<close>

fun truthy :: "jsval \<Rightarrow> bool" where
  "truthy Undefined = False"
| "truthy Null = False"
| "truthy (Bool b) = b"
| "truthy (Num n) = (n \<noteq> 0)"
| "truthy (Str s) = (s \<noteq> [])"
| "truthy (Arr xs) = True"
| "truthy (Obj kvs) = True"

text \<open>
  Reading one of the members the handlers name (\<^verbatim>\<open>title\<close>, \<^verbatim>\<open>description\<close>,
  \<^verbatim>\<open>category\<close>, \<^verbatim>\<open>location\<close>, \<^verbatim>\<open>address\<close>, \<^verbatim>\<open>newImages\<close>,
  \<^verbatim>\<open>imagesToDelete\<close>): on \<^verbatim>\<open>null\<close> (and \<^verbatim>\<open>undefined\<close>) it throws a TypeError,
  which is \<open>None\<close>; on an object it is the member, the last one when \<^verbatim>\<open>JSON.parse\<close>
  met the key twice; on any other value it is \<^verbatim>\<open>undefined\<close>.
\<close>

fun js_get :: "jsval \<Rightarrow> string \<Rightarrow> jsval option" where
  "js_get Undefined k = None"
| "js_get Null k = None"
| "js_get (Obj kvs) k = Some (case map_of (rev kvs) k of None \<Rightarrow> Undefined | Some v \<Rightarrow> v)"
| "js_get v k = Some Undefined"

text \<open>
  \<^verbatim>\<open>for (const x of v)\<close>: an array gives its elements, a string its characters, and
  every other value is not iterable (TypeError, \<open>None\<close>).
\<close>

fun iterate :: "jsval \<Rightarrow> jsval list option" where
  "iterate (Arr xs) = Some xs"
| "iterate (Str s) = Some (map (\<lambda>c. Str [c]) s)"
| "iterate v = None"

subsection \<open>\<^verbatim>\<open>String.prototype.trim\<close> and \<^verbatim>\<open>parseInt\<close>\<close>

definition is_whitespace :: "char \<Rightarrow> bool" where
  "is_whitespace c \<longleftrightarrow>
     c \<in> set [CHR 0x09, CHR 0x0A, CHR 0x0B, CHR 0x0C, CHR 0x0D, CHR 0x20, CHR 0xA0]"

definition trim :: "string \<Rightarrow> string" where
  "trim s = rev (dropWhile is_whitespace (rev (dropWhile is_whitespace s)))"








section \<open>The modules the handlers import\<close>

text \<open>
  \<^verbatim>\<open>@/lib/db\<close>, \<^verbatim>\<open>@/lib/cloudinary\<close> and \<^verbatim>\<open>@/lib/geocode\<close> are parameters of the
  model. Each function takes the state of the outside world (database, image host,
  geocoder) and returns either the error it throws or its result, with the new state.
\<close>

datatype js_error = JsError string

fun message :: "js_error \<Rightarrow> string" where
  "message (JsError m) = m"

record upload_result =
  secure_url :: string
  public_id :: string

record image =
  url :: string
  publicId :: string

text \<open>A populated user reference; \<open>user_id\<close> is \<^verbatim>\<open>_id.toString()\<close>.\<close>

record user =
  user_id :: string
  username :: jsval
  email :: jsval

record review =
  review_id :: jsval
  comment :: jsval
  upvote :: jsval
  review_createdAt :: jsval
  author :: "user option"

text \<open>
  A report as the data access layer returns it. Members the handlers only copy are
  \<open>jsval\<close>; \<open>images\<close>, \<open>createdBy\<close> and \<open>reviews\<close> are \<open>None\<close> when the member
  is \<^verbatim>\<open>undefined\<close> or \<^verbatim>\<open>null\<close>.
\<close>

record report =
  report_id :: jsval
  title :: jsval
  description :: jsval
  category :: jsval
  location :: jsval
  imageUrl :: jsval
  images :: "image list option"
  resolved :: jsval
  resolvedAt :: jsval
  resolvedBy :: jsval
  createdAt :: jsval
  createdBy :: "user option"
  reviews :: "review list option"

record list_result =
  reports :: "report list"
  pagination :: jsval

type_synonym ('w, 'a) service = "'w \<Rightarrow> (js_error + 'a) \<times> 'w"

text \<open>
  \<open>gt_zero v\<close> is the engine's \<^verbatim>\<open>v > 0\<close> for a string, array or object \<open>v\<close>, whose
  conversion to a number is floating point (and may throw, \<open>None\<close>). Only
  \<^verbatim>\<open>PATCH\<close> asks for it, when \<^verbatim>\<open>newImages\<close> or \<^verbatim>\<open>imagesToDelete\<close> is an object with
  a member \<^verbatim>\<open>length\<close>.
\<close>

record 'w env =
  connectToDatabase :: "('w, unit) service"
  geocodeAddress :: "jsval \<Rightarrow> ('w, jsval) service"
  uploadImage :: "jsval \<Rightarrow> ('w, upload_result) service"
  deleteImage :: "jsval \<Rightarrow> ('w, unit) service"
  createReport :: "jsval \<Rightarrow> ('w, report) service"
  getAllReports :: "jsval \<Rightarrow> ('w, list_result) service"
  getReportById :: "string \<Rightarrow> bool option \<Rightarrow> ('w, report option) service"
  updateReport :: "string \<Rightarrow> jsval \<Rightarrow> ('w, report option) service"
  deleteReportIfOwner :: "string \<Rightarrow> string \<Rightarrow> ('w, bool) service"
  gt_zero :: "jsval \<Rightarrow> bool option"

text \<open>Every call a handler makes is logged with its arguments and its outcome.\<close>

datatype event =
    ConnectToDatabase "js_error + unit"
  | GeocodeAddress jsval "js_error + jsval"
  | UploadImage jsval "js_error + upload_result"
  | DeleteImage jsval "js_error + unit"
  | CreateReport jsval "js_error + report"
  | GetAllReports jsval "js_error + list_result"
  | GetReportById string "bool option" "js_error + report option"
  | UpdateReport string jsval "js_error + report option"
  | DeleteReportIfOwner string string "js_error + bool"

type_synonym 'w st = "'w \<times> event list"

definition invoke ::
  "('w, 'a) service \<Rightarrow> (js_error + 'a \<Rightarrow> event) \<Rightarrow> 'w st \<Rightarrow> (js_error + 'a) \<times> 'w st" where
  "invoke f ev s = (case f (fst s) of (r, w') \<Rightarrow> (r, (w', snd s @ [ev r])))"

section \<open>Requests and responses\<close>

record request =
  user_id_header :: "string option"
  json_body :: "jsval option"
  searchParams :: "(string \<times> string) list"

text \<open>\<open>user_id_header\<close> is \<^verbatim>\<open>request.headers.get('user-id')\<close>; \<open>json_body\<close> is
  \<^verbatim>\<open>await request.json()\<close>, \<open>None\<close> when it throws; \<open>searchParams\<close> are the query
  parameters in order, \<^verbatim>\<open>get\<close> returning the first.\<close>

record response =
  status :: nat
  payload :: jsval

definition json_response :: "jsval \<Rightarrow> nat \<Rightarrow> response" where
  "json_response v st = \<lparr>status = st, payload = v\<rparr>"

definition error_response :: "string \<Rightarrow> nat \<Rightarrow> response" where
  "error_response msg st = json_response (Obj [(''error'', Str msg)]) st"

definition internal_server_error :: response where
  "internal_server_error = error_response ''Internal server error'' 500"

definition validCategories :: "jsval list" where
  "validCategories = [Str ''garbage'', Str ''waterlogging'', Str ''other'']"

text \<open>\<^verbatim>\<open>request.headers.get('user-id') || 'placeholder-user-id'\<close>\<close>

definition header_userId :: "request \<Rightarrow> string" where
  "header_userId request =
     (case user_id_header request of
        None \<Rightarrow> ''placeholder-user-id''
      | Some u \<Rightarrow> if u = [] then ''placeholder-user-id'' else u)"

definition image_obj :: "image \<Rightarrow> jsval" where
  "image_obj im = Obj [(''url'', Str (url im)), (''publicId'', Str (publicId im))]"

section \<open>Uploading a batch of images\<close>

text \<open>A loop of best-effort deletions: \<^verbatim>\<open>try { await deleteImage(x) } catch { ... }\<close>
  for each element in turn; what \<^verbatim>\<open>deleteImage\<close> throws is logged or ignored.\<close>

fun delete_all :: "'w env \<Rightarrow> jsval list \<Rightarrow> 'w st \<Rightarrow> 'w st" where
  "delete_all env [] s = s"
| "delete_all env (x # rest) s =
     delete_all env rest (snd (invoke (deleteImage env x) (DeleteImage x) s))"

text \<open>The clean-up of the \<^verbatim>\<open>catch\<close> block: \<^verbatim>\<open>deleteImage(uploadedImage.publicId)\<close>
  for each image uploaded so far in this call.\<close>

definition cleanup :: "'w env \<Rightarrow> image list \<Rightarrow> 'w st \<Rightarrow> 'w st" where
  "cleanup env uploadedImages s =
     delete_all env (map (\<lambda>uploadedImage. Str (publicId uploadedImage)) uploadedImages) s"

text \<open>\<^verbatim>\<open>{ url: uploadResult.secure_url, publicId: uploadResult.public_id }\<close>\<close>

definition uploaded_image :: "upload_result \<Rightarrow> image" where
  "uploaded_image uploadResult =
     \<lparr>url = secure_url uploadResult, publicId = public_id uploadResult\<rparr>"

text \<open>The upload loop, shared word for word by \<^verbatim>\<open>POST\<close> and \<^verbatim>\<open>PATCH\<close>. \<open>Inl e\<close> is
  the early return from the \<^verbatim>\<open>catch\<close> block, after the clean-up.\<close>

fun upload_all ::
  "'w env \<Rightarrow> jsval list \<Rightarrow> image list \<Rightarrow> 'w st \<Rightarrow> (js_error + image list) \<times> 'w st" where
  "upload_all env [] uploadedImages s = (Inr uploadedImages, s)"
| "upload_all env (img # rest) uploadedImages s =
     (case invoke (uploadImage env img) (UploadImage img) s of
        (Inr uploadResult, s') \<Rightarrow>
          upload_all env rest (uploadedImages @ [uploaded_image uploadResult]) s'
      | (Inl error, s') \<Rightarrow> (Inl error, cleanup env uploadedImages s'))"

section \<open>\<^verbatim>\<open>POST /api/report\<close>\<close>

text \<open>\<^verbatim>\<open>uploadedImages[0]?.url || ''\<close>\<close>

definition main_image_url :: "image list \<Rightarrow> string" where
  "main_image_url uploadedImages =
     (case uploadedImages of [] \<Rightarrow> [] | im # _ \<Rightarrow> if url im = [] then [] else url im)"

text \<open>\<^verbatim>\<open>v.trim()\<close> for a body member: only a string has the method.\<close>

fun trim_value :: "jsval \<Rightarrow> jsval option" where
  "trim_value (Str s) = Some (Str (trim s))"
| "trim_value v = None"

definition created_projection :: "report \<Rightarrow> jsval" where
  "created_projection savedReport =
     Obj [(''success'', Bool True),
          (''report'', Obj [(''_id'', report_id savedReport),
                            (''title'', title savedReport),
                            (''category'', category savedReport),
                            (''location'', location savedReport),
                            (''imageUrl'', imageUrl savedReport),
                            (''createdAt'', createdAt savedReport)])]"

text \<open>Lines 86 to 95: \<^verbatim>\<open>reportData\<close>, from the trimmed title and description.\<close>

definition report_data ::
  "jsval \<Rightarrow> jsval \<Rightarrow> jsval \<Rightarrow> jsval \<Rightarrow> image list \<Rightarrow> string \<Rightarrow> jsval" where
  "report_data trimmedTitle trimmedDescription category' finalLocation uploadedImages userId =
     Obj [(''title'', trimmedTitle),
          (''description'', trimmedDescription),
          (''category'', category'),
          (''location'', finalLocation),
          (''imageUrl'', Str (main_image_url uploadedImages)),
          (''images'', Arr (map image_obj uploadedImages)),
          (''createdBy'', Str userId)]"

text \<open>Lines 59 to 110: the upload loop, the report data and the save.\<close>

definition POST_upload_and_save ::
  "'w env \<Rightarrow> jsval \<Rightarrow> jsval \<Rightarrow> jsval \<Rightarrow> jsval \<Rightarrow> jsval \<Rightarrow> string \<Rightarrow> 'w st
     \<Rightarrow> response \<times> 'w st" where
  "POST_upload_and_save env title' description' category' finalLocation newImages userId s =
     (case iterate newImages of
        None \<Rightarrow> (internal_server_error, s)
      | Some imgs \<Rightarrow>
         (case upload_all env imgs [] s of
            (Inl error, s1) \<Rightarrow>
              (error_response (''Failed to upload image: '' @ message error) 500, s1)
          | (Inr uploadedImages, s1) \<Rightarrow>
             (case trim_value title' of
                None \<Rightarrow> (internal_server_error, s1)
              | Some trimmedTitle \<Rightarrow>
                 (case trim_value description' of
                    None \<Rightarrow> (internal_server_error, s1)
                  | Some trimmedDescription \<Rightarrow>
                     (let reportData = report_data trimmedTitle trimmedDescription category'
                                         finalLocation uploadedImages userId
                      in case invoke (createReport env reportData) (CreateReport reportData) s1 of
                           (Inl error, s2) \<Rightarrow> (internal_server_error, s2)
                         | (Inr savedReport, s2) \<Rightarrow>
                             (json_response (created_projection savedReport) 201, s2))))))"

text \<open>Lines 36 to 42: the header, or the placeholder, which is then replaced by a dummy
  ObjectId.\<close>

definition POST_userId :: "request \<Rightarrow> string" where
  "POST_userId request =
     (let userId = header_userId request
      in if userId = ''placeholder-user-id'' then ''000000000000000000000001'' else userId)"

definition POST :: "'w env \<Rightarrow> request \<Rightarrow> 'w st \<Rightarrow> response \<times> 'w st" where
  "POST env request s =
     (case invoke (connectToDatabase env) ConnectToDatabase s of
        (Inl error, s1) \<Rightarrow> (internal_server_error, s1)
      | (Inr _, s1) \<Rightarrow>
         (case json_body request of
            None \<Rightarrow> (internal_server_error, s1)
          | Some body \<Rightarrow>
             (case (js_get body ''title'', js_get body ''description'', js_get body ''category'',
                    js_get body ''location'', js_get body ''address'', js_get body ''newImages'') of
                (Some title', Some description', Some category', Some location', Some address,
                 Some newImages) \<Rightarrow>
                  if \<not> truthy title' \<or> \<not> truthy description' \<or> \<not> truthy category'
                     \<or> \<not> truthy newImages \<or> (\<not> truthy location' \<and> \<not> truthy address)
                  then (error_response
                          ''Missing required fields: title, description, category, images, and location/address''
                          400, s1)
                  else if category' \<notin> set validCategories
                  then (error_response
                          ''Invalid category. Must be one of: garbage, waterlogging, other''
                          400, s1)
                  else
                    (let userId = POST_userId request
                     in if truthy address \<and> \<not> truthy location'
                        then
                          (case invoke (geocodeAddress env address) (GeocodeAddress address) s1 of
                             (Inl error, s2) \<Rightarrow>
                               (error_response
                                  (''Failed to geocode address: '' @ message error) 400, s2)
                           | (Inr coords, s2) \<Rightarrow>
                               POST_upload_and_save env title' description' category' coords
                                 newImages userId s2)
                        else POST_upload_and_save env title' description' category' location'
                               newImages userId s1)
              | _ \<Rightarrow> (internal_server_error, s1))))"

section \<open>\<^verbatim>\<open>GET /api/report\<close>\<close>

text \<open>\<^verbatim>\<open>searchParams.get(name)\<close>\<close>

definition get_param :: "request \<Rightarrow> string \<Rightarrow> string option" where
  "get_param request name = map_of (searchParams request) name"




section \<open>\<^verbatim>\<open>GET /api/report/[id]\<close>\<close>

text \<open>The projection \<^verbatim>\<open>formattedReport\<close> of \<^verbatim>\<open>GET\<close> and \<^verbatim>\<open>PATCH\<close>; reading
  \<^verbatim>\<open>report.createdBy._id\<close> throws when \<^verbatim>\<open>createdBy\<close> is not populated.\<close>

definition formatted_report :: "report \<Rightarrow> jsval option" where
  "formatted_report r =
     (case createdBy r of
        None \<Rightarrow> None
      | Some u \<Rightarrow>
          Some (Obj [(''_id'', report_id r),
                     (''title'', title r),
                     (''description'', description r),
                     (''category'', category r),
                     (''location'', location r),
                     (''imageUrl'', imageUrl r),
                     (''images'', Arr (map image_obj (case images r of None \<Rightarrow> [] | Some ims \<Rightarrow> ims))),
                     (''resolved'', resolved r),
                     (''resolvedAt'', resolvedAt r),
                     (''resolvedBy'', resolvedBy r),
                     (''createdAt'', createdAt r),
                     (''createdBy'', Obj [(''_id'', Str (user_id u)),
                                          (''username'', username u),
                                          (''email'', email u)])]))"

definition formatted_review :: "review \<Rightarrow> jsval option" where
  "formatted_review rv =
     (case author rv of
        None \<Rightarrow> None
      | Some a \<Rightarrow>
          Some (Obj [(''_id'', review_id rv),
                     (''comment'', comment rv),
                     (''upvote'', upvote rv),
                     (''createdAt'', review_createdAt rv),
                     (''author'', Obj [(''_id'', Str (user_id a)),
                                       (''username'', username a)])]))"

text \<open>\<^verbatim>\<open>report.reviews.map(...)\<close>, which throws as soon as one review has no author.\<close>

fun formatted_reviews :: "review list \<Rightarrow> jsval list option" where
  "formatted_reviews [] = Some []"
| "formatted_reviews (rv # rest) =
     (case formatted_review rv of
        None \<Rightarrow> None
      | Some v \<Rightarrow> (case formatted_reviews rest of None \<Rightarrow> None | Some vs \<Rightarrow> Some (v # vs)))"

text \<open>\<^verbatim>\<open>formattedReport.reviews = ...\<close>: a member added to the object.\<close>

fun with_member :: "jsval \<Rightarrow> string \<Rightarrow> jsval \<Rightarrow> jsval" where
  "with_member (Obj kvs) k v = Obj (kvs @ [(k, v)])"
| "with_member x k v = x"

definition invalid_id :: "string \<Rightarrow> bool" where
  "invalid_id id' \<longleftrightarrow> id' = [] \<or> id' = ''undefined'' \<or> id' = ''null''"

definition GET_by_id :: "'w env \<Rightarrow> request \<Rightarrow> string \<Rightarrow> 'w st \<Rightarrow> response \<times> 'w st" where
  "GET_by_id env request id' s =
     (case invoke (connectToDatabase env) ConnectToDatabase s of
        (Inl error, s1) \<Rightarrow> (internal_server_error, s1)
      | (Inr _, s1) \<Rightarrow>
         (let includeReviews = (get_param request ''includeReviews'' = Some ''true'')
          in if invalid_id id'
             then (error_response ''Invalid report ID'' 400, s1)
             else
               (case invoke (getReportById env id' (Some includeReviews))
                       (GetReportById id' (Some includeReviews)) s1 of
                  (Inl error, s2) \<Rightarrow> (internal_server_error, s2)
                | (Inr None, s2) \<Rightarrow> (error_response ''Report not found'' 404, s2)
                | (Inr (Some report'), s2) \<Rightarrow>
                   (case formatted_report report' of
                      None \<Rightarrow> (internal_server_error, s2)
                    | Some formattedReport \<Rightarrow>
                       (case (if includeReviews then reviews report' else None) of
                          None \<Rightarrow>
                            (json_response
                               (Obj [(''success'', Bool True), (''report'', formattedReport)])
                               200, s2)
                        | Some rvs \<Rightarrow>
                           (case formatted_reviews rvs of
                              None \<Rightarrow> (internal_server_error, s2)
                            | Some vs \<Rightarrow>
                                (json_response
                                   (Obj [(''success'', Bool True),
                                         (''report'',
                                            with_member formattedReport ''reviews'' (Arr vs))])
                                   200, s2)))))))"

section \<open>\<^verbatim>\<open>PATCH /api/report/[id]\<close>\<close>

text \<open>\<^verbatim>\<open>v > 0\<close>: exact for \<^verbatim>\<open>undefined\<close> (\<^verbatim>\<open>NaN\<close>), \<^verbatim>\<open>null\<close> (0), booleans and
  numbers; the engine's string-to-number conversion decides the rest.\<close>

fun greater_than_zero :: "'w env \<Rightarrow> jsval \<Rightarrow> bool option" where
  "greater_than_zero env Undefined = Some False"
| "greater_than_zero env Null = Some False"
| "greater_than_zero env (Bool b) = Some b"
| "greater_than_zero env (Num n) = Some (n > 0)"
| "greater_than_zero env v = gt_zero env v"

text \<open>\<^verbatim>\<open>v.length > 0\<close> for a truthy \<open>v\<close>: arrays and strings have a length, numbers and
  booleans have none (\<^verbatim>\<open>undefined > 0\<close> is false), an object has the member it was sent
  with.\<close>

fun length_gt_zero :: "'w env \<Rightarrow> jsval \<Rightarrow> bool option" where
  "length_gt_zero env (Arr xs) = Some (xs \<noteq> [])"
| "length_gt_zero env (Str s) = Some (s \<noteq> [])"
| "length_gt_zero env (Obj kvs) =
     greater_than_zero env
       (case map_of (rev kvs) ''length'' of None \<Rightarrow> Undefined | Some v \<Rightarrow> v)"
| "length_gt_zero env (Num n) = Some False"
| "length_gt_zero env (Bool b) = Some False"
| "length_gt_zero env Undefined = None"
| "length_gt_zero env Null = None"

text \<open>\<^verbatim>\<open>if (v && v.length > 0) { for (const x of v) ... }\<close>: the elements the loop
  visits, none when the test fails, and \<open>None\<close> when the test or the loop throws.\<close>

definition nonempty_elements :: "'w env \<Rightarrow> jsval \<Rightarrow> jsval list option" where
  "nonempty_elements env v =
     (if truthy v
      then (case length_gt_zero env v of
              None \<Rightarrow> None
            | Some False \<Rightarrow> Some []
            | Some True \<Rightarrow> iterate v)
      else Some [])"

text \<open>\<^verbatim>\<open>if (x !== undefined) updateData.k = x\<close>\<close>

definition if_defined :: "string \<Rightarrow> jsval \<Rightarrow> (string \<times> jsval) list" where
  "if_defined k x = (if x \<noteq> Undefined then [(k, x)] else [])"

definition update_data ::
  "jsval \<Rightarrow> jsval \<Rightarrow> jsval \<Rightarrow> jsval \<Rightarrow> jsval \<Rightarrow> image list \<Rightarrow> jsval" where
  "update_data title' description' category' finalLocation imagesToDelete uploadedNewImages =
     Obj (if_defined ''title'' title'
          @ if_defined ''description'' description'
          @ if_defined ''category'' category'
          @ if_defined ''location'' finalLocation
          @ if_defined ''imagesToDelete'' imagesToDelete
          @ (if uploadedNewImages \<noteq> []
             then [(''newImages'', Arr (map image_obj uploadedNewImages))] else []))"

text \<open>Lines 162 to 245: deletions, uploads, the update and the response.\<close>

definition PATCH_images_and_update ::
  "'w env \<Rightarrow> string \<Rightarrow> jsval \<Rightarrow> jsval \<Rightarrow> jsval \<Rightarrow> jsval \<Rightarrow> jsval \<Rightarrow> jsval \<Rightarrow> 'w st
     \<Rightarrow> response \<times> 'w st" where
  "PATCH_images_and_update env id' title' description' category' finalLocation newImages
     imagesToDelete s =
     (case nonempty_elements env imagesToDelete of
        None \<Rightarrow> (internal_server_error, s)
      | Some publicIds \<Rightarrow>
         (let s1 = delete_all env publicIds s
          in case nonempty_elements env newImages of
               None \<Rightarrow> (internal_server_error, s1)
             | Some imgs \<Rightarrow>
                (case upload_all env imgs [] s1 of
                   (Inl error, s2) \<Rightarrow>
                     (error_response (''Failed to upload image: '' @ message error) 500, s2)
                 | (Inr uploadedNewImages, s2) \<Rightarrow>
                    (let updateData = update_data title' description' category' finalLocation
                                        imagesToDelete uploadedNewImages
                     in case invoke (updateReport env id' updateData)
                               (UpdateReport id' updateData) s2 of
                          (Inl error, s3) \<Rightarrow> (internal_server_error, s3)
                        | (Inr None, s3) \<Rightarrow> (error_response ''Failed to update report'' 500, s3)
                        | (Inr (Some updatedReport), s3) \<Rightarrow>
                           (case formatted_report updatedReport of
                              None \<Rightarrow> (internal_server_error, s3)
                            | Some formattedReport \<Rightarrow>
                                (json_response
                                   (Obj [(''success'', Bool True), (''report'', formattedReport)])
                                   200, s3))))))"

text \<open>Lines 128 to 160: ownership, category, geocoding.\<close>

definition PATCH_owned ::
  "'w env \<Rightarrow> string \<Rightarrow> string \<Rightarrow> report \<Rightarrow> jsval \<Rightarrow> jsval \<Rightarrow> jsval \<Rightarrow> jsval \<Rightarrow> jsval
     \<Rightarrow> jsval \<Rightarrow> jsval \<Rightarrow> 'w st \<Rightarrow> response \<times> 'w st" where
  "PATCH_owned env id' userId currentReport title' description' category' location' address
     newImages imagesToDelete s =
     (case createdBy currentReport of
        None \<Rightarrow> (internal_server_error, s)
      | Some owner \<Rightarrow>
          if user_id owner \<noteq> userId
          then (error_response ''Unauthorized: You can only edit your own reports'' 403, s)
          else if truthy category' \<and> category' \<notin> set validCategories
          then (error_response
                  ''Invalid category. Must be one of: garbage, waterlogging, other'' 400, s)
          else if truthy address \<and> \<not> truthy location'
          then
            (case invoke (geocodeAddress env address) (GeocodeAddress address) s of
               (Inl error, s1) \<Rightarrow>
                 (error_response (''Failed to geocode address: '' @ message error) 400, s1)
             | (Inr coords, s1) \<Rightarrow>
                 PATCH_images_and_update env id' title' description' category' coords newImages
                   imagesToDelete s1)
          else PATCH_images_and_update env id' title' description' category' location' newImages
                 imagesToDelete s)"

definition PATCH :: "'w env \<Rightarrow> request \<Rightarrow> string \<Rightarrow> 'w st \<Rightarrow> response \<times> 'w st" where
  "PATCH env request id' s =
     (case invoke (connectToDatabase env) ConnectToDatabase s of
        (Inl error, s1) \<Rightarrow> (internal_server_error, s1)
      | (Inr _, s1) \<Rightarrow>
         if invalid_id id'
         then (error_response ''Invalid report ID'' 400, s1)
         else
          (case json_body request of
             None \<Rightarrow> (internal_server_error, s1)
           | Some body \<Rightarrow>
              (case (js_get body ''title'', js_get body ''description'', js_get body ''category'',
                     js_get body ''location'', js_get body ''address'', js_get body ''newImages'',
                     js_get body ''imagesToDelete'') of
                 (Some title', Some description', Some category', Some location', Some address,
                  Some newImages, Some imagesToDelete) \<Rightarrow>
                   (let userId = header_userId request
                    in if userId = ''placeholder-user-id''
                       then (error_response ''Authentication required'' 401, s1)
                       else
                         (case invoke (getReportById env id' None) (GetReportById id' None) s1 of
                            (Inl error, s2) \<Rightarrow> (internal_server_error, s2)
                          | (Inr None, s2) \<Rightarrow> (error_response ''Report not found'' 404, s2)
                          | (Inr (Some currentReport), s2) \<Rightarrow>
                              PATCH_owned env id' userId currentReport title' description'
                                category' location' address newImages imagesToDelete s2))
               | _ \<Rightarrow> (internal_server_error, s1))))"

section \<open>\<^verbatim>\<open>DELETE /api/report/[id]\<close>\<close>

text \<open>Lines 282 to 290: every image of the report, or the main image when the array is
  empty; nothing when the report has no array.\<close>

definition delete_report_images :: "'w env \<Rightarrow> report \<Rightarrow> 'w st \<Rightarrow> 'w st" where
  "delete_report_images env report' s =
     (case images report' of
        Some (img # imgs) \<Rightarrow> cleanup env (img # imgs) s
      | Some [] \<Rightarrow>
          if truthy (imageUrl report')
          then snd (invoke (deleteImage env (imageUrl report')) (DeleteImage (imageUrl report')) s)
          else s
      | None \<Rightarrow> s)"

definition DELETE :: "'w env \<Rightarrow> request \<Rightarrow> string \<Rightarrow> 'w st \<Rightarrow> response \<times> 'w st" where
  "DELETE env request id' s =
     (case invoke (connectToDatabase env) ConnectToDatabase s of
        (Inl error, s1) \<Rightarrow> (internal_server_error, s1)
      | (Inr _, s1) \<Rightarrow>
         if id' = []
         then (error_response ''Invalid report ID'' 400, s1)
         else
          (let userId = header_userId request
           in if userId = ''placeholder-user-id''
              then (error_response ''Authentication required'' 401, s1)
              else
                (case invoke (getReportById env id' None) (GetReportById id' None) s1 of
                   (Inl error, s2) \<Rightarrow> (internal_server_error, s2)
                 | (Inr None, s2) \<Rightarrow> (error_response ''Report not found'' 404, s2)
                 | (Inr (Some report'), s2) \<Rightarrow>
                    (case createdBy report' of
                       None \<Rightarrow> (internal_server_error, s2)
                     | Some owner \<Rightarrow>
                         if user_id owner \<noteq> userId
                         then (error_response
                                 ''Unauthorized: You can only delete your own reports'' 403, s2)
                         else
                           (let s3 = delete_report_images env report' s2
                            in case invoke (deleteReportIfOwner env id' userId)
                                      (DeleteReportIfOwner id' userId) s3 of
                                 (Inl error, s4) \<Rightarrow> (internal_server_error, s4)
                               | (Inr deleted, s4) \<Rightarrow>
                                   if \<not> deleted
                                   then (error_response ''Failed to delete report'' 500, s4)
                                   else (json_response (Obj [(''success'', Bool True)]) 200, s4))))))"

section \<open>Reading the log of calls\<close>

fun upload_failed :: "event \<Rightarrow> bool" where
  "upload_failed (UploadImage img (Inl e)) = True"
| "upload_failed ev = False"

text \<open>A call that threw.\<close>

fun failed :: "event \<Rightarrow> bool" where
  "failed (ConnectToDatabase r) = isl r"
| "failed (GeocodeAddress a r) = isl r"
| "failed (UploadImage img r) = isl r"
| "failed (DeleteImage x r) = isl r"
| "failed (CreateReport d r) = isl r"
| "failed (GetAllReports d r) = isl r"
| "failed (GetReportById i b r) = isl r"
| "failed (UpdateReport i d r) = isl r"
| "failed (DeleteReportIfOwner i u r) = isl r"

fun is_upload :: "event \<Rightarrow> bool" where
  "is_upload (UploadImage img r) = True"
| "is_upload ev = False"

text \<open>The calls that write to the collection of reports.\<close>

fun is_write :: "event \<Rightarrow> bool" where
  "is_write (CreateReport d r) = True"
| "is_write (UpdateReport i d r) = True"
| "is_write (DeleteReportIfOwner i u r) = True"
| "is_write ev = False"

text \<open>The calls that read or write reports: everything of \<^verbatim>\<open>@/lib/db\<close> except the
  connection.\<close>

fun is_report_access :: "event \<Rightarrow> bool" where
  "is_report_access (GetReportById i b r) = True"
| "is_report_access (GetAllReports d r) = True"
| "is_report_access ev = is_write ev"

text \<open>The calls that leave the application: geocoder and image host.\<close>

fun is_external :: "event \<Rightarrow> bool" where
  "is_external (GeocodeAddress a r) = True"
| "is_external (UploadImage img r) = True"
| "is_external (DeleteImage x r) = True"
| "is_external ev = False"

definition upload_ok :: "jsval \<times> upload_result \<Rightarrow> event" where
  "upload_ok p = UploadImage (fst p) (Inr (snd p))"

definition delete_events :: "jsval list \<Rightarrow> (js_error + unit) list \<Rightarrow> event list" where
  "delete_events xs outs = map (\<lambda>(x, out). DeleteImage x out) (zip xs outs)"

section \<open>A small world to run the handlers in\<close>

text \<open>
  The image host rejects the payload \<^verbatim>\<open>"bad"\<close> and answers any other string with a
  URL made from it; the geocoder knows every address but \<^verbatim>\<open>"nowhere"\<close>; the data
  access layer holds one report, \<^verbatim>\<open>r1\<close> of user \<^verbatim>\<open>u1\<close>, and saves what it is given.
\<close>

definition member_of :: "jsval \<Rightarrow> string \<Rightarrow> jsval" where
  "member_of v k = (case js_get v k of None \<Rightarrow> Undefined | Some x \<Rightarrow> x)"

definition stored_report :: report where
  "stored_report =
     \<lparr>report_id = Str ''r1'', title = Str ''Overflowing bin'', description = Str ''near market'',
      category = Str ''garbage'', location = Obj [(''lat'', Num 28), (''lng'', Num 77)],
      imageUrl = Str ''https://img.example/img1'',
      images = Some [\<lparr>url = ''https://img.example/img1'', publicId = ''img1''\<rparr>],
      resolved = Bool False, resolvedAt = Null, resolvedBy = Null, createdAt = Num 1700000000,
      createdBy = Some \<lparr>user_id = ''u1'', username = Str ''asha'', email = Str ''asha@example.org''\<rparr>,
      reviews = None\<rparr>"

definition saved_from :: "jsval \<Rightarrow> report" where
  "saved_from d =
     \<lparr>report_id = Str ''r2'', title = member_of d ''title'',
      description = member_of d ''description'', category = member_of d ''category'',
      location = member_of d ''location'', imageUrl = member_of d ''imageUrl'',
      images = None, resolved = Bool False, resolvedAt = Null, resolvedBy = Null,
      createdAt = Num 1700000001, createdBy = None, reviews = None\<rparr>"

definition small_world :: "unit env" where
  "small_world =
     \<lparr>connectToDatabase = (\<lambda>w. (Inr (), w)),
      geocodeAddress = (\<lambda>a w.
        (if a = Str ''nowhere'' then Inl (JsError ''address not found'')
         else Inr (Obj [(''lat'', Num 28), (''lng'', Num 77)]), w)),
      uploadImage = (\<lambda>img w.
        (case img of
           Str p \<Rightarrow> if p = ''bad'' then Inl (JsError ''upload rejected'')
                    else Inr \<lparr>secure_url = ''https://img.example/'' @ p, public_id = p\<rparr>
         | _ \<Rightarrow> Inl (JsError ''not an image''), w)),
      deleteImage = (\<lambda>x w. (Inr (), w)),
      createReport = (\<lambda>d w. (Inr (saved_from d), w)),
      getAllReports = (\<lambda>opts w. (Inr \<lparr>reports = [stored_report], pagination = Obj []\<rparr>, w)),
      getReportById = (\<lambda>i inc w. (Inr (if i = ''r1'' then Some stored_report else None), w)),
      updateReport = (\<lambda>i d w. (Inr (if i = ''r1'' then Some stored_report else None), w)),
      deleteReportIfOwner = (\<lambda>i u w. (Inr (i = ''r1'' \<and> u = ''u1''), w)),
      gt_zero = (\<lambda>v. Some False)\<rparr>"

section \<open>Properties\<close>


subsection \<open>What the two loops log\<close>

lemma invoke_pair:
  "invoke f ev (w, tr) = (case f w of (r, w') \<Rightarrow> (r, (w', tr @ [ev r])))"
  by (simp add: invoke_def)

lemma invoke_eq:
  "f w = (r, w') \<Longrightarrow> invoke f ev (w, tr) = (r, (w', tr @ [ev r]))"
  by (simp add: invoke_def)

lemma js_get_defined:
  "body \<noteq> Null \<Longrightarrow> body \<noteq> Undefined \<Longrightarrow> \<exists>x. js_get body k = Some x"
  by (cases body) simp_all

lemma delete_events_Nil [simp]: "delete_events [] outs = []"
  by (simp add: delete_events_def)

lemma delete_events_Cons [simp]:
  "delete_events (x # xs) (out # outs) = DeleteImage x out # delete_events xs outs"
  by (simp add: delete_events_def)

lemma delete_all_log:
  "\<exists>outs w'. length outs = length xs \<and> delete_all env xs (w, tr) = (w', tr @ delete_events xs outs)"
proof (induction xs arbitrary: w tr)
  case Nil
  then show ?case by simp
next
  case (Cons x xs)
  obtain r w1 where step: "deleteImage env x w = (r, w1)"
    by (cases "deleteImage env x w")
  from Cons.IH [of w1 "tr @ [DeleteImage x r]"]
  obtain outs w' where
    "length outs = length xs"
    "delete_all env xs (w1, tr @ [DeleteImage x r]) = (w', (tr @ [DeleteImage x r]) @ delete_events xs outs)"
    by blast
  then have "length (r # outs) = length (x # xs) \<and>
    delete_all env (x # xs) (w, tr) = (w', tr @ delete_events (x # xs) (r # outs))"
    using step by (simp add: invoke_pair)
  then show ?case by blast
qed

lemma cleanup_log:
  "\<exists>outs w'. length outs = length ups \<and>
     cleanup env ups (w, tr) =
       (w', tr @ delete_events (map (\<lambda>u. Str (publicId u)) ups) outs)"
  using delete_all_log [of "map (\<lambda>u. Str (publicId u)) ups" env w tr]
  by (simp add: cleanup_def)

lemma upload_all_log:
  "upload_all env imgs up (w, tr) = (res, (w', tr')) \<Longrightarrow>
   (case res of
      Inr ups \<Rightarrow>
        \<exists>rs. length rs = length imgs \<and> ups = up @ map uploaded_image rs
            \<and> tr' = tr @ map upload_ok (zip imgs rs)
    | Inl e \<Rightarrow>
        \<exists>rs outs. length rs < length imgs
            \<and> length outs = length up + length rs
            \<and> tr' = tr @ map upload_ok (zip imgs rs)
                     @ [UploadImage (imgs ! length rs) (Inl e)]
                     @ delete_events (map (\<lambda>u. Str (publicId u)) (up @ map uploaded_image rs)) outs)"
proof (induction imgs arbitrary: up w tr)
  case Nil
  then show ?case by (auto split: sum.splits)
next
  case (Cons img imgs)
  obtain r w1 where step: "uploadImage env img w = (r, w1)"
    by (cases "uploadImage env img w")
  show ?case
  proof (cases r)
    case (Inl e)
    with Cons.prems step
    have res: "res = Inl e" and fin: "cleanup env up (w1, tr @ [UploadImage img (Inl e)]) = (w', tr')"
      by (simp_all add: invoke_pair)
    from cleanup_log [of up env w1 "tr @ [UploadImage img (Inl e)]"] fin
    obtain outs where "length outs = length up"
      "tr' = (tr @ [UploadImage img (Inl e)]) @ delete_events (map (\<lambda>u. Str (publicId u)) up) outs"
      by auto
    then have "length ([]::upload_result list) < length (img # imgs)
            \<and> length outs = length up + length ([]::upload_result list)
            \<and> tr' = tr @ map upload_ok (zip (img # imgs) [])
                     @ [UploadImage ((img # imgs) ! length ([]::upload_result list)) (Inl e)]
                     @ delete_events (map (\<lambda>u. Str (publicId u)) (up @ map uploaded_image [])) outs"
      by simp
    then show ?thesis unfolding res sum.case by blast
  next
    case (Inr ur)
    with Cons.prems step
    have rec: "upload_all env imgs (up @ [uploaded_image ur]) (w1, tr @ [UploadImage img (Inr ur)]) = (res, (w', tr'))"
      by (simp add: invoke_pair)
    note IH = Cons.IH [OF rec]
    show ?thesis
    proof (cases res)
      case (Inl e)
      with IH obtain rs outs where
        "length rs < length imgs" "length outs = length (up @ [uploaded_image ur]) + length rs"
        "tr' = (tr @ [UploadImage img (Inr ur)]) @ map upload_ok (zip imgs rs)
                     @ [UploadImage (imgs ! length rs) (Inl e)]
                     @ delete_events (map (\<lambda>u. Str (publicId u)) ((up @ [uploaded_image ur]) @ map uploaded_image rs)) outs"
        by auto
      then have "length (ur # rs) < length (img # imgs)
            \<and> length outs = length up + length (ur # rs)
            \<and> tr' = tr @ map upload_ok (zip (img # imgs) (ur # rs))
                     @ [UploadImage ((img # imgs) ! length (ur # rs)) (Inl e)]
                     @ delete_events (map (\<lambda>u. Str (publicId u)) (up @ map uploaded_image (ur # rs))) outs"
        by (simp add: upload_ok_def)
      then show ?thesis unfolding Inl sum.case by blast
    next
      case (Inr ups)
      with IH obtain rs where
        "length rs = length imgs" "ups = (up @ [uploaded_image ur]) @ map uploaded_image rs"
        "tr' = (tr @ [UploadImage img (Inr ur)]) @ map upload_ok (zip imgs rs)"
        by auto
      then have "length (ur # rs) = length (img # imgs) \<and> ups = up @ map uploaded_image (ur # rs)
            \<and> tr' = tr @ map upload_ok (zip (img # imgs) (ur # rs))"
        by (simp add: upload_ok_def)
      then show ?thesis unfolding Inr sum.case by blast
    qed
  qed
qed


subsection \<open>The runs of \<^verbatim>\<open>POST\<close>, branch by branch\<close>

lemma POST_upload_and_save_cases [consumes 1, case_names not_iterable upload_failed trim_failed created]:
  assumes run: "POST_upload_and_save env t d c loc n uid (w, tr) = (resp, (w', tr'))"
  obtains
    (not_iterable) "iterate n = None" "resp = internal_server_error" "tr' = tr"
  | (upload_failed) imgs rs e outs where
      "iterate n = Some imgs" "length rs < length imgs" "length outs = length rs"
      "resp = error_response (''Failed to upload image: '' @ message e) 500"
      "tr' = tr @ map upload_ok (zip imgs rs) @ [UploadImage (imgs ! length rs) (Inl e)]
                @ delete_events (map (\<lambda>r. Str (public_id r)) rs) outs"
  | (trim_failed) imgs rs where
      "iterate n = Some imgs" "length rs = length imgs"
      "trim_value t = None \<or> trim_value d = None"
      "resp = internal_server_error" "tr' = tr @ map upload_ok (zip imgs rs)"
  | (created) imgs rs tt dd out where
      "iterate n = Some imgs" "length rs = length imgs"
      "trim_value t = Some tt" "trim_value d = Some dd"
      "tr' = tr @ map upload_ok (zip imgs rs)
                @ [CreateReport (report_data tt dd c loc (map uploaded_image rs) uid) out]"
      "resp = (case out of Inl e \<Rightarrow> internal_server_error
               | Inr saved \<Rightarrow> json_response (created_projection saved) 201)"
proof (cases "iterate n")
  case None
  with run have "resp = internal_server_error" "tr' = tr"
    by (simp_all add: POST_upload_and_save_def)
  with None show ?thesis by (rule not_iterable)
next
  case (Some imgs)
  obtain res w1 tr1 where up: "upload_all env imgs [] (w, tr) = (res, (w1, tr1))"
    by (metis surj_pair)
  note log = upload_all_log [OF up]
  show ?thesis
  proof (cases res)
    case (Inl e)
    with log obtain rs outs where
      "length rs < length imgs" "length outs = length rs"
      "tr1 = tr @ map upload_ok (zip imgs rs) @ [UploadImage (imgs ! length rs) (Inl e)]
             @ delete_events (map (\<lambda>u. Str (publicId u)) (map uploaded_image rs)) outs"
      by auto
    moreover have "resp = error_response (''Failed to upload image: '' @ message e) 500" "tr' = tr1"
      using run Some up Inl by (simp_all add: POST_upload_and_save_def)
    ultimately show ?thesis using Some
      by (intro upload_failed [of imgs rs outs e]) (simp_all add: uploaded_image_def o_def)
  next
    case (Inr ups)
    with log obtain rs where rs: "length rs = length imgs" "ups = map uploaded_image rs"
      "tr1 = tr @ map upload_ok (zip imgs rs)"
      by auto
    show ?thesis
    proof (cases "trim_value t = None \<or> trim_value d = None")
      case True
      then have "resp = internal_server_error" "tr' = tr1"
        using run Some up Inr by (auto simp add: POST_upload_and_save_def split: option.splits)
      with rs Some True show ?thesis
        by (intro trim_failed [of imgs rs]) simp_all
    next
      case False
      then obtain tt dd where td: "trim_value t = Some tt" "trim_value d = Some dd" by auto
      obtain out w2 where cr: "createReport env (report_data tt dd c loc ups uid) w1 = (out, w2)"
        by (metis surj_pair)
      have "tr' = tr1 @ [CreateReport (report_data tt dd c loc ups uid) out]"
        "resp = (case out of Inl e \<Rightarrow> internal_server_error
                     | Inr saved \<Rightarrow> json_response (created_projection saved) 201)"
        using run Some up Inr td cr
        by (auto simp add: POST_upload_and_save_def invoke_eq Let_def split: sum.splits)
      with rs Some td show ?thesis
        by (intro created [of imgs rs tt dd out]) simp_all
    qed
  qed
qed


lemma POST_early:
  "connectToDatabase env w = (Inl e, w0) \<Longrightarrow>
     POST env request (w, tr) = (internal_server_error, (w0, tr @ [ConnectToDatabase (Inl e)]))"
  "connectToDatabase env w = (Inr u, w0) \<Longrightarrow> json_body request = None \<Longrightarrow>
     POST env request (w, tr) = (internal_server_error, (w0, tr @ [ConnectToDatabase (Inr u)]))"
  "connectToDatabase env w = (Inr u, w0) \<Longrightarrow> json_body request = Some body \<Longrightarrow>
     body = Null \<or> body = Undefined \<Longrightarrow>
     POST env request (w, tr) = (internal_server_error, (w0, tr @ [ConnectToDatabase (Inr u)]))"
  by (auto simp add: POST_def invoke_eq)

lemma POST_missing:
  assumes "connectToDatabase env w = (Inr u, w0)" "json_body request = Some body"
    "js_get body ''title'' = Some t" "js_get body ''description'' = Some d"
    "js_get body ''category'' = Some c" "js_get body ''location'' = Some l"
    "js_get body ''address'' = Some a" "js_get body ''newImages'' = Some n"
    "\<not> truthy t \<or> \<not> truthy d \<or> \<not> truthy c \<or> \<not> truthy n \<or> (\<not> truthy l \<and> \<not> truthy a)"
  shows "POST env request (w, tr) =
     (error_response
        ''Missing required fields: title, description, category, images, and location/address''
        400, (w0, tr @ [ConnectToDatabase (Inr u)]))"
  using assms by (auto simp add: POST_def invoke_eq)

lemma POST_invalid_category:
  assumes "connectToDatabase env w = (Inr u, w0)" "json_body request = Some body"
    "js_get body ''title'' = Some t" "js_get body ''description'' = Some d"
    "js_get body ''category'' = Some c" "js_get body ''location'' = Some l"
    "js_get body ''address'' = Some a" "js_get body ''newImages'' = Some n"
    "truthy t" "truthy d" "truthy c" "truthy n" "truthy l \<or> truthy a"
    "c \<notin> set validCategories"
  shows "POST env request (w, tr) =
     (error_response ''Invalid category. Must be one of: garbage, waterlogging, other''
        400, (w0, tr @ [ConnectToDatabase (Inr u)]))"
  using assms by (auto simp add: POST_def invoke_eq)

lemma POST_geocode_failed:
  assumes "connectToDatabase env w = (Inr u, w0)" "json_body request = Some body"
    "js_get body ''title'' = Some t" "js_get body ''description'' = Some d"
    "js_get body ''category'' = Some c" "js_get body ''location'' = Some l"
    "js_get body ''address'' = Some a" "js_get body ''newImages'' = Some n"
    "truthy t" "truthy d" "truthy c" "truthy n" "truthy l \<or> truthy a"
    "c \<in> set validCategories" "truthy a \<and> \<not> truthy l"
    "geocodeAddress env a w0 = (Inl e, w2)"
  shows "POST env request (w, tr) =
     (error_response (''Failed to geocode address: '' @ message e) 400,
      (w2, tr @ [ConnectToDatabase (Inr u), GeocodeAddress a (Inl e)]))"
  using assms by (auto simp add: POST_def invoke_eq)

lemma POST_geocoded:
  assumes "connectToDatabase env w = (Inr u, w0)" "json_body request = Some body"
    "js_get body ''title'' = Some t" "js_get body ''description'' = Some d"
    "js_get body ''category'' = Some c" "js_get body ''location'' = Some l"
    "js_get body ''address'' = Some a" "js_get body ''newImages'' = Some n"
    "truthy t" "truthy d" "truthy c" "truthy n" "truthy l \<or> truthy a"
    "c \<in> set validCategories" "truthy a \<and> \<not> truthy l"
    "geocodeAddress env a w0 = (Inr fl, w2)"
  shows "POST env request (w, tr) =
     POST_upload_and_save env t d c fl n (POST_userId request)
       (w2, tr @ [ConnectToDatabase (Inr u), GeocodeAddress a (Inr fl)])"
  using assms by (auto simp add: POST_def invoke_eq Let_def)

lemma POST_located:
  assumes "connectToDatabase env w = (Inr u, w0)" "json_body request = Some body"
    "js_get body ''title'' = Some t" "js_get body ''description'' = Some d"
    "js_get body ''category'' = Some c" "js_get body ''location'' = Some l"
    "js_get body ''address'' = Some a" "js_get body ''newImages'' = Some n"
    "truthy t" "truthy d" "truthy c" "truthy n" "truthy l \<or> truthy a"
    "c \<in> set validCategories" "\<not> (truthy a \<and> \<not> truthy l)"
  shows "POST env request (w, tr) =
     POST_upload_and_save env t d c l n (POST_userId request)
       (w0, tr @ [ConnectToDatabase (Inr u)])"
  using assms by (auto simp add: POST_def invoke_eq Let_def)


lemma error_status [simp]: "status (error_response m st) = st"
  by (simp add: error_response_def json_response_def)

lemma json_status [simp]: "status (json_response v st) = st"
  by (simp add: json_response_def)

lemma ise_status [simp]: "status internal_server_error = 500"
  by (simp add: internal_server_error_def)

lemma POST_stages [consumes 1, case_names early late]:
  assumes run: "POST env request (w, []) = (resp, (w', calls))"
  obtains
    (early) "status resp \<in> {400, 500}"
      "\<forall>ev \<in> set calls. \<not> is_upload ev \<and> \<not> is_write ev"
  | (late) body t d c l a n fl u w1 pre where
      "json_body request = Some body"
      "js_get body ''title'' = Some t" "js_get body ''description'' = Some d"
      "js_get body ''category'' = Some c" "js_get body ''location'' = Some l"
      "js_get body ''address'' = Some a" "js_get body ''newImages'' = Some n"
      "truthy t" "truthy d" "c \<in> set validCategories" "truthy n" "truthy l \<or> truthy a"
      "pre = [ConnectToDatabase (Inr u)] \<and> fl = l \<and> truthy l
         \<or> pre = [ConnectToDatabase (Inr u), GeocodeAddress a (Inr fl)] \<and> truthy a"
      "POST_upload_and_save env t d c fl n (POST_userId request) (w1, pre)
         = (resp, (w', calls))"
proof -
  obtain r0 w0 where conn: "connectToDatabase env w = (r0, w0)" by (metis surj_pair)
  show ?thesis
  proof (cases r0)
    case (Inl e)
    from run POST_early(1) [OF conn [unfolded Inl], of request "[]"]
    have "resp = internal_server_error" "calls = [ConnectToDatabase (Inl e)]" by simp_all
    then show ?thesis by (intro early) simp_all
  next
    case (Inr u)
    note conn' = conn [unfolded Inr]
    show ?thesis
    proof (cases "json_body request")
      case None
      from run POST_early(2) [OF conn' None, of "[]"]
      have "resp = internal_server_error" "calls = [ConnectToDatabase (Inr u)]" by simp_all
      then show ?thesis by (intro early) simp_all
    next
      case (Some body)
      show ?thesis
      proof (cases "body = Null \<or> body = Undefined")
        case True
        from run POST_early(3) [OF conn' Some True, of "[]"]
        have "resp = internal_server_error" "calls = [ConnectToDatabase (Inr u)]" by simp_all
        then show ?thesis by (intro early) simp_all
      next
        case False
        then have nn: "body \<noteq> Null" "body \<noteq> Undefined" by simp_all
        obtain t where gt: "js_get body ''title'' = Some t"
          using js_get_defined [OF nn] by blast
        obtain d where gd: "js_get body ''description'' = Some d"
          using js_get_defined [OF nn] by blast
        obtain c where gc: "js_get body ''category'' = Some c"
          using js_get_defined [OF nn] by blast
        obtain l where gl: "js_get body ''location'' = Some l"
          using js_get_defined [OF nn] by blast
        obtain a where ga: "js_get body ''address'' = Some a"
          using js_get_defined [OF nn] by blast
        obtain n where gn: "js_get body ''newImages'' = Some n"
          using js_get_defined [OF nn] by blast
        note g = gt gd gc gl ga gn
        show ?thesis
        proof (cases "truthy t \<and> truthy d \<and> truthy c \<and> truthy n \<and> (truthy l \<or> truthy a)")
          case False
          then have "\<not> truthy t \<or> \<not> truthy d \<or> \<not> truthy c \<or> \<not> truthy n \<or> (\<not> truthy l \<and> \<not> truthy a)"
            by blast
          from run POST_missing [OF conn' Some g this, of "[]"]
          have "status resp = 400" "calls = [ConnectToDatabase (Inr u)]" by auto
          then show ?thesis by (intro early) simp_all
        next
          case True
          then have req: "truthy t" "truthy d" "truthy c" "truthy n" "truthy l \<or> truthy a"
            by simp_all
          show ?thesis
          proof (cases "c \<in> set validCategories")
            case False
            from run POST_invalid_category [OF conn' Some g req False, of "[]"]
            have "status resp = 400" "calls = [ConnectToDatabase (Inr u)]" by auto
            then show ?thesis by (intro early) simp_all
          next
            case cat: True
            show ?thesis
            proof (cases "truthy a \<and> \<not> truthy l")
              case geoc: True
              note geo = geoc
              obtain gr w2 where ge: "geocodeAddress env a w0 = (gr, w2)" by (metis surj_pair)
              show ?thesis
              proof (cases gr)
                case (Inl e)
                from run POST_geocode_failed [OF conn' Some g req cat geo ge [unfolded Inl], of "[]"]
                have "status resp = 400"
                  "calls = [ConnectToDatabase (Inr u), GeocodeAddress a (Inl e)]" by auto
                then show ?thesis by (intro early) simp_all
              next
                case (Inr fl)
                from run POST_geocoded [OF conn' Some g req cat geo ge [unfolded Inr], of "[]"]
                have save: "POST_upload_and_save env t d c fl n (POST_userId request)
                      (w2, [ConnectToDatabase (Inr u), GeocodeAddress a (Inr fl)])
                    = (resp, (w', calls))"
                  by simp
                from geo have pre:
                  "[ConnectToDatabase (Inr u), GeocodeAddress a (Inr fl)] = [ConnectToDatabase (Inr u)]
                     \<and> fl = l \<and> truthy l
                   \<or> [ConnectToDatabase (Inr u), GeocodeAddress a (Inr fl)]
                       = [ConnectToDatabase (Inr u), GeocodeAddress a (Inr fl)] \<and> truthy a"
                  by simp
                show ?thesis by (rule late [OF Some g req(1,2) cat req(4,5) pre save])
              qed
            next
              case geoc: False
              from run POST_located [OF conn' Some g req cat geoc, of "[]"]
              have save: "POST_upload_and_save env t d c l n (POST_userId request)
                      (w0, [ConnectToDatabase (Inr u)])
                    = (resp, (w', calls))"
                by simp
              from geoc req(5) have pre:
                "[ConnectToDatabase (Inr u)] = [ConnectToDatabase (Inr u)] \<and> l = l \<and> truthy l
                 \<or> [ConnectToDatabase (Inr u)]
                       = [ConnectToDatabase (Inr u), GeocodeAddress a (Inr l)] \<and> truthy a"
                by auto
              show ?thesis by (rule late [OF Some g req(1,2) cat req(4,5) pre save])
            qed
          qed
        qed
      qed
    qed
  qed
qed


lemma upload_ok_props [simp]:
  "is_upload (upload_ok p)" "\<not> is_write (upload_ok p)" "\<not> upload_failed (upload_ok p)"
  "\<not> failed (upload_ok p)" "is_external (upload_ok p)"
  by (simp_all add: upload_ok_def)

lemma delete_events_props:
  "ev \<in> set (delete_events xs outs) \<Longrightarrow>
     \<not> is_upload ev \<and> \<not> is_write ev \<and> \<not> upload_failed ev"
  by (auto simp add: delete_events_def)

lemma report_data_members:
  "js_get (report_data tt dd c fl ups uid) ''title'' = Some tt"
  "js_get (report_data tt dd c fl ups uid) ''description'' = Some dd"
  "js_get (report_data tt dd c fl ups uid) ''category'' = Some c"
  "js_get (report_data tt dd c fl ups uid) ''location'' = Some fl"
  "js_get (report_data tt dd c fl ups uid) ''imageUrl'' = Some (Str (main_image_url ups))"
  "js_get (report_data tt dd c fl ups uid) ''images'' = Some (Arr (map image_obj ups))"
  "js_get (report_data tt dd c fl ups uid) ''createdBy'' = Some (Str uid)"
  by (simp_all add: report_data_def)

lemma trim_value_Some: "trim_value v = Some x \<Longrightarrow> \<exists>s. v = Str s \<and> x = Str (trim s)"
  by (cases v) simp_all

lemma trim_whitespace:
  assumes "\<forall>ch \<in> set t. is_whitespace ch"
  shows "trim t = []"
proof -
  from assms have "dropWhile is_whitespace t = []"
    by (induction t) simp_all
  then have "trim t = rev (dropWhile is_whitespace (rev []))"
    unfolding trim_def by (rule arg_cong)
  then show ?thesis by simp
qed


subsection \<open>A \<^verbatim>\<open>PATCH\<close> by somebody else\<close>





subsection \<open>What \<^verbatim>\<open>POST\<close> saves\<close>

lemma response_neq [simp]:
  "internal_server_error \<noteq> error_response m 400"
  "json_response v 201 \<noteq> error_response m 400"
  "error_response m' 500 \<noteq> error_response m 400"
  by (simp_all add: internal_server_error_def error_response_def json_response_def)





text \<open>
  C10. When \<^verbatim>\<open>POST\<close> answers 201, title and description of the body are strings, and
  the last call of the handler, the only write, is \<^verbatim>\<open>createReport\<close> with the title and
  the description trimmed; a title of white space only is saved as the empty string. Such
  a title is not empty, so the check of the required fields does not stop it: when the other
  required members are there, the answer is never the 400 of the missing fields.
\<close>

theorem POST_persists_trimmed:
  assumes run: "POST env request (w, []) = (resp, (w', calls))"
  shows "(status resp = 201 \<longrightarrow>
           (\<exists>body t d data saved.
              json_body request = Some body
              \<and> js_get body ''title'' = Some (Str t) \<and> js_get body ''description'' = Some (Str d)
              \<and> calls \<noteq> [] \<and> last calls = CreateReport data (Inr saved)
              \<and> (\<forall>ev \<in> set (butlast calls). \<not> is_write ev)
              \<and> js_get data ''title'' = Some (Str (trim t))
              \<and> js_get data ''description'' = Some (Str (trim d))
              \<and> ((\<forall>ch \<in> set t. is_whitespace ch) \<longrightarrow> js_get data ''title'' = Some (Str []))))
       \<and> (json_body request = Some body' \<and> js_get body' ''title'' = Some (Str t')
            \<and> t' \<noteq> [] \<and> (\<forall>ch \<in> set t'. is_whitespace ch)
            \<and> js_get body' ''description'' = Some d' \<and> truthy d'
            \<and> js_get body' ''category'' = Some c' \<and> truthy c'
            \<and> js_get body' ''newImages'' = Some n' \<and> truthy n'
            \<and> js_get body' ''location'' = Some l' \<and> js_get body' ''address'' = Some a'
            \<and> (truthy l' \<or> truthy a')
          \<longrightarrow> resp \<noteq> error_response
                ''Missing required fields: title, description, category, images, and location/address''
                400)"
proof (intro conjI impI)
  assume st: "status resp = 201"
  from run show "\<exists>body t d data saved.
              json_body request = Some body
              \<and> js_get body ''title'' = Some (Str t) \<and> js_get body ''description'' = Some (Str d)
              \<and> calls \<noteq> [] \<and> last calls = CreateReport data (Inr saved)
              \<and> (\<forall>ev \<in> set (butlast calls). \<not> is_write ev)
              \<and> js_get data ''title'' = Some (Str (trim t))
              \<and> js_get data ''description'' = Some (Str (trim d))
              \<and> ((\<forall>ch \<in> set t. is_whitespace ch) \<longrightarrow> js_get data ''title'' = Some (Str []))"
  proof (cases rule: POST_stages)
    case early
    with st show ?thesis by simp
  next
    case (late body t d c l a n fl u w1 pre)
    from late(13) have pre: "\<forall>ev \<in> set pre. \<not> is_write ev" by auto
    from late(14) show ?thesis
    proof (cases rule: POST_upload_and_save_cases)
      case not_iterable
      with st show ?thesis by simp
    next
      case (upload_failed imgs rs e outs)
      with st show ?thesis by simp
    next
      case (trim_failed imgs rs)
      with st show ?thesis by simp
    next
      case (created imgs rs tt dd out)
      from created(6) st obtain saved where out: "out = Inr saved"
        by (cases out) simp_all
      from trim_value_Some [OF created(3)] obtain ts where t: "t = Str ts" "tt = Str (trim ts)"
        by blast
      from trim_value_Some [OF created(4)] obtain ds where d: "d = Str ds" "dd = Str (trim ds)"
        by blast
      let ?data = "report_data tt dd c fl (map uploaded_image rs) (POST_userId request)"
      have c: "calls = (pre @ map upload_ok (zip imgs rs)) @ [CreateReport ?data (Inr saved)]"
        using created(5) out by simp
      have 1: "calls \<noteq> []" "last calls = CreateReport ?data (Inr saved)"
        "butlast calls = pre @ map upload_ok (zip imgs rs)"
        unfolding c by (rule snoc_eq_iff_butlast [THEN iffD1, THEN conjunct1, OF refl],
          rule last_snoc, rule butlast_snoc)
      have 2: "\<forall>ev \<in> set (butlast calls). \<not> is_write ev"
        unfolding 1(3) using pre by auto
      have 3: "js_get ?data ''title'' = Some (Str (trim ts))"
        "js_get ?data ''description'' = Some (Str (trim ds))"
        by (simp_all add: report_data_members t d)
      have 4: "(\<forall>ch \<in> set ts. is_whitespace ch) \<longrightarrow> js_get ?data ''title'' = Some (Str [])"
        using 3(1) trim_whitespace [of ts] by simp
      from late(1) late(2,3) [unfolded t d] 1(1,2) 2 3 4 show ?thesis by blast
    qed
  qed
next
  assume v: "json_body request = Some body' \<and> js_get body' ''title'' = Some (Str t')
            \<and> t' \<noteq> [] \<and> (\<forall>ch \<in> set t'. is_whitespace ch)
            \<and> js_get body' ''description'' = Some d' \<and> truthy d'
            \<and> js_get body' ''category'' = Some c' \<and> truthy c'
            \<and> js_get body' ''newImages'' = Some n' \<and> truthy n'
            \<and> js_get body' ''location'' = Some l' \<and> js_get body' ''address'' = Some a'
            \<and> (truthy l' \<or> truthy a')"
  let ?missing = "error_response
                ''Missing required fields: title, description, category, images, and location/address''
                400"
  obtain r0 w0 where conn: "connectToDatabase env w = (r0, w0)" by (metis surj_pair)
  show "resp \<noteq> ?missing"
  proof (cases r0)
    case (Inl e)
    from run POST_early(1) [OF conn [unfolded Inl], of request "[]"]
    show ?thesis by auto
  next
    case (Inr u)
    note conn' = conn [unfolded Inr]
    from v have g: "json_body request = Some body'" "js_get body' ''title'' = Some (Str t')"
      "js_get body' ''description'' = Some d'" "js_get body' ''category'' = Some c'"
      "js_get body' ''location'' = Some l'" "js_get body' ''address'' = Some a'"
      "js_get body' ''newImages'' = Some n'"
      and tr: "truthy (Str t')" "truthy d'" "truthy c'" "truthy n'" "truthy l' \<or> truthy a'"
      by simp_all
    show ?thesis
    proof (cases "c' \<in> set validCategories")
      case False
      from run POST_invalid_category [OF conn' g tr False, of "[]"]
      show ?thesis by (auto simp add: error_response_def json_response_def)
    next
      case cat: True
      have "\<exists>fl s. POST_upload_and_save env (Str t') d' c' fl n' (POST_userId request) s = (resp, (w', calls))
             \<or> (\<exists>m. resp = error_response (''Failed to geocode address: '' @ m) 400)"
      proof (cases "truthy a' \<and> \<not> truthy l'")
        case geo: True
        obtain gr w2 where ge: "geocodeAddress env a' w0 = (gr, w2)" by (metis surj_pair)
        show ?thesis
        proof (cases gr)
          case (Inl e)
          from run POST_geocode_failed [OF conn' g tr cat geo ge [unfolded Inl], of "[]"]
          show ?thesis by auto
        next
          case (Inr fl)
          from run POST_geocoded [OF conn' g tr cat geo ge [unfolded Inr], of "[]"]
          show ?thesis by auto
        qed
      next
        case False
        from run POST_located [OF conn' g tr cat False, of "[]"]
        show ?thesis by auto
      qed
      then show ?thesis
      proof (elim exE disjE)
        fix fl s
        assume "POST_upload_and_save env (Str t') d' c' fl n' (POST_userId request) s = (resp, (w', calls))"
        then have "POST_upload_and_save env (Str t') d' c' fl n' (POST_userId request) (fst s, snd s)
                     = (resp, (w', calls))" by simp
        then show ?thesis
          by (cases rule: POST_upload_and_save_cases) (auto split: sum.splits)
      next
        fix fl s m
        assume "resp = error_response (''Failed to geocode address: '' @ m) 400"
        then show ?thesis by (simp add: error_response_def json_response_def)
      qed
    qed
  qed
qed


lemmas POST_eval = POST_def POST_upload_and_save_def invoke_def small_world_def validCategories_def
  POST_userId_def header_userId_def report_data_def main_image_url_def uploaded_image_def
  image_obj_def trim_def is_whitespace_def saved_from_def member_of_def json_response_def
  created_projection_def error_response_def internal_server_error_def cleanup_def Let_def

theorem POST_persists_trimmed_witness:
  "status (fst (POST small_world
     \<lparr>user_id_header = None,
      json_body = Some (Obj [(''title'', Str ''  ''), (''description'', Str '' near market ''),
                             (''category'', Str ''garbage''),
                             (''location'', Obj [(''lat'', Num 28), (''lng'', Num 77)]),
                             (''newImages'', Arr [Str ''img1'', Str ''img2''])]),
      searchParams = []\<rparr> ((), []))) = 201
   \<and> (\<exists>data saved.
         last (snd (snd (POST small_world
           \<lparr>user_id_header = None,
            json_body = Some (Obj [(''title'', Str ''  ''), (''description'', Str '' near market ''),
                                   (''category'', Str ''garbage''),
                                   (''location'', Obj [(''lat'', Num 28), (''lng'', Num 77)]),
                                   (''newImages'', Arr [Str ''img1'', Str ''img2''])]),
            searchParams = []\<rparr> ((), [])))) = CreateReport data (Inr saved)
         \<and> js_get data ''title'' = Some (Str [])
         \<and> js_get data ''description'' = Some (Str ''near market''))
   \<and> fst (POST small_world
           \<lparr>user_id_header = None,
            json_body = Some (Obj [(''title'', Str ''  ''), (''description'', Str '' near market ''),
                                   (''category'', Str ''garbage''),
                                   (''location'', Obj [(''lat'', Num 28), (''lng'', Num 77)]),
                                   (''newImages'', Arr [Str ''img1'', Str ''img2''])]),
            searchParams = []\<rparr> ((), []))
       \<noteq> error_response
           ''Missing required fields: title, description, category, images, and location/address''
           400"
  (is "status (fst (POST small_world ?req ((), []))) = 201 \<and> ?persisted \<and> ?passed")
proof -
  let ?body = "Obj [(''title'', Str ''  ''), (''description'', Str '' near market ''),
                    (''category'', Str ''garbage''),
                    (''location'', Obj [(''lat'', Num 28), (''lng'', Num 77)]),
                    (''newImages'', Arr [Str ''img1'', Str ''img2''])]"
  obtain resp calls where run: "POST small_world ?req ((), []) = (resp, ((), calls))"
    by (cases "POST small_world ?req ((), [])") auto
  have st: "status (fst (POST small_world ?req ((), []))) = 201"
    by (simp add: POST_eval)
  with run have st': "status resp = 201" by simp
  note inst = POST_persists_trimmed [OF run, of ?body "''  ''" "Str '' near market ''"
      "Str ''garbage''" "Arr [Str ''img1'', Str ''img2'']"
      "Obj [(''lat'', Num 28), (''lng'', Num 77)]" Undefined]
  from inst have passed: "resp \<noteq> error_response
           ''Missing required fields: title, description, category, images, and location/address''
           400"
    by (simp add: is_whitespace_def)
  from inst st'
  obtain body t d data saved where
    w: "json_body ?req = Some body" "js_get body ''title'' = Some (Str t)"
       "js_get body ''description'' = Some (Str d)"
       "last calls = CreateReport data (Inr saved)"
       "js_get data ''title'' = Some (Str (trim t))"
       "js_get data ''description'' = Some (Str (trim d))"
    by blast
  from w(1) have "body = ?body" by simp
  with w(2,3) have "t = ''  ''" "d = '' near market ''" by simp_all
  with w(5,6) have "js_get data ''title'' = Some (Str [])"
    "js_get data ''description'' = Some (Str ''near market'')"
    by (simp_all add: trim_def is_whitespace_def)
  with w(4) run st passed show ?thesis by auto
qed






subsection \<open>Inputs the checks let through\<close>

lemmas PATCH_eval = PATCH_def PATCH_owned_def PATCH_images_and_update_def DELETE_def
  delete_report_images_def nonempty_elements_def update_data_def if_defined_def
  formatted_report_def invoke_def small_world_def validCategories_def header_userId_def
  uploaded_image_def image_obj_def stored_report_def json_response_def error_response_def
  internal_server_error_def cleanup_def invalid_id_def Let_def

text \<open>
  C1. The check of the required fields is \<^verbatim>\<open>!newImages\<close>, and an empty array is truthy:
  a create request with \<^verbatim>\<open>newImages: []\<close> is not answered 400. The handler calls
  \<^verbatim>\<open>createReport\<close> with \<^verbatim>\<open>images: []\<close> and \<^verbatim>\<open>imageUrl: ''\<close> and answers 201.
\<close>

theorem POST_empty_images_persisted:
  "POST small_world
     \<lparr>user_id_header = Some ''u1'',
      json_body = Some (Obj [(''title'', Str ''Overflowing bin''),
                             (''description'', Str ''near market''),
                             (''category'', Str ''garbage''),
                             (''location'', Obj [(''lat'', Num 28), (''lng'', Num 77)]),
                             (''newImages'', Arr [])]),
      searchParams = []\<rparr> ((), [])
   = (json_response
        (created_projection
           (saved_from
              (Obj [(''title'', Str ''Overflowing bin''), (''description'', Str ''near market''),
                    (''category'', Str ''garbage''),
                    (''location'', Obj [(''lat'', Num 28), (''lng'', Num 77)]),
                    (''imageUrl'', Str []), (''images'', Arr []), (''createdBy'', Str ''u1'')])))
        201,
      ((), [ConnectToDatabase (Inr ()),
            CreateReport
              (Obj [(''title'', Str ''Overflowing bin''), (''description'', Str ''near market''),
                    (''category'', Str ''garbage''),
                    (''location'', Obj [(''lat'', Num 28), (''lng'', Num 77)]),
                    (''imageUrl'', Str []), (''images'', Arr []), (''createdBy'', Str ''u1'')])
              (Inr (saved_from
                 (Obj [(''title'', Str ''Overflowing bin''), (''description'', Str ''near market''),
                       (''category'', Str ''garbage''),
                       (''location'', Obj [(''lat'', Num 28), (''lng'', Num 77)]),
                       (''imageUrl'', Str []), (''images'', Arr []),
                       (''createdBy'', Str ''u1'')])))]))"
  by (simp add: POST_eval)

theorem POST_empty_images_persisted_witness:
  "status (fst (POST small_world
     \<lparr>user_id_header = Some ''u1'',
      json_body = Some (Obj [(''title'', Str ''Overflowing bin''),
                             (''description'', Str ''near market''),
                             (''category'', Str ''garbage''),
                             (''location'', Obj [(''lat'', Num 28), (''lng'', Num 77)]),
                             (''newImages'', Arr [])]),
      searchParams = []\<rparr> ((), []))) = 201
   \<and> (\<exists>data saved.
         last (snd (snd (POST small_world
           \<lparr>user_id_header = Some ''u1'',
            json_body = Some (Obj [(''title'', Str ''Overflowing bin''),
                                   (''description'', Str ''near market''),
                                   (''category'', Str ''garbage''),
                                   (''location'', Obj [(''lat'', Num 28), (''lng'', Num 77)]),
                                   (''newImages'', Arr [])]),
            searchParams = []\<rparr> ((), [])))) = CreateReport data (Inr saved)
         \<and> js_get data ''images'' = Some (Arr []))"
  unfolding POST_empty_images_persisted by simp

text \<open>
  C3. \<^verbatim>\<open>GET\<close> and \<^verbatim>\<open>PATCH\<close> answer 400 for the id \<^verbatim>\<open>"undefined"\<close> after the
  connection alone; \<^verbatim>\<open>DELETE\<close> tests only \<^verbatim>\<open>!id\<close>, looks the report
  \<^verbatim>\<open>"undefined"\<close> up and answers 404, and the same for \<^verbatim>\<open>"null"\<close>.
\<close>

theorem DELETE_looks_up_undefined:
  "GET_by_id small_world \<lparr>user_id_header = Some ''u1'', json_body = None, searchParams = []\<rparr>
     ''undefined'' ((), [])
   = (error_response ''Invalid report ID'' 400, ((), [ConnectToDatabase (Inr ())]))
   \<and> PATCH small_world \<lparr>user_id_header = Some ''u1'', json_body = Some (Obj []), searchParams = []\<rparr>
     ''undefined'' ((), [])
   = (error_response ''Invalid report ID'' 400, ((), [ConnectToDatabase (Inr ())]))
   \<and> DELETE small_world \<lparr>user_id_header = Some ''u1'', json_body = None, searchParams = []\<rparr>
     ''undefined'' ((), [])
   = (error_response ''Report not found'' 404,
      ((), [ConnectToDatabase (Inr ()), GetReportById ''undefined'' None (Inr None)]))
   \<and> DELETE small_world \<lparr>user_id_header = Some ''u1'', json_body = None, searchParams = []\<rparr>
     ''null'' ((), [])
   = (error_response ''Report not found'' 404,
      ((), [ConnectToDatabase (Inr ()), GetReportById ''null'' None (Inr None)]))"
  by (simp add: PATCH_eval GET_by_id_def)

theorem DELETE_looks_up_undefined_witness:
  "status (fst (DELETE small_world
      \<lparr>user_id_header = Some ''u1'', json_body = None, searchParams = []\<rparr>
      ''undefined'' ((), []))) = 404
   \<and> is_report_access (last (snd (snd (DELETE small_world
      \<lparr>user_id_header = Some ''u1'', json_body = None, searchParams = []\<rparr>
      ''undefined'' ((), [])))))
   \<and> status (fst (PATCH small_world
      \<lparr>user_id_header = Some ''u1'', json_body = Some (Obj []), searchParams = []\<rparr>
      ''undefined'' ((), []))) = 400"
  using DELETE_looks_up_undefined by simp



subsection \<open>The range check of the list\<close>











subsection \<open>Requests without the \<^verbatim>\<open>user-id\<close> header\<close>

lemma header_userId_None:
  "user_id_header request = None \<Longrightarrow> header_userId request = ''placeholder-user-id''"
  by (simp add: header_userId_def)

lemma POST_userId_None:
  "user_id_header request = None \<Longrightarrow> POST_userId request = ''000000000000000000000001''"
  by (simp add: POST_userId_def header_userId_def)

lemma POST_outcome:
  assumes run: "POST env request (w, []) = (resp, (w', calls))"
  shows "status resp \<in> {400, 500, 201}"
    and "CreateReport data out \<in> set calls \<Longrightarrow>
           js_get data ''createdBy'' = Some (Str (POST_userId request))"
    and "status resp = 201 \<Longrightarrow> \<exists>data saved. CreateReport data (Inr saved) \<in> set calls"
proof -
  have "status resp \<in> {400, 500, 201}
      \<and> (CreateReport data out \<in> set calls \<longrightarrow>
           js_get data ''createdBy'' = Some (Str (POST_userId request)))
      \<and> (status resp = 201 \<longrightarrow> (\<exists>data saved. CreateReport data (Inr saved) \<in> set calls))"
    using run
  proof (cases rule: POST_stages)
    case early
    then show ?thesis by auto
  next
    case (late body t d c l a n fl u w1 pre)
    from late(13) have pre: "CreateReport data out \<notin> set pre" by auto
    from late(14) show ?thesis
    proof (cases rule: POST_upload_and_save_cases)
      case not_iterable
      with pre show ?thesis by simp
    next
      case (upload_failed imgs rs e outs)
      with pre show ?thesis by (auto simp add: upload_ok_def delete_events_def)
    next
      case (trim_failed imgs rs)
      with pre show ?thesis by (auto simp add: upload_ok_def)
    next
      case (created imgs rs tt dd out')
      have 1: "status resp \<in> {400, 500, 201}"
        using created(6) by (cases out') simp_all
      have 2: "CreateReport data out \<in> set calls \<longrightarrow>
           js_get data ''createdBy'' = Some (Str (POST_userId request))"
        using created(5) pre by (auto simp add: upload_ok_def report_data_members)
      have 3: "status resp = 201 \<longrightarrow> (\<exists>data saved. CreateReport data (Inr saved) \<in> set calls)"
      proof
        assume "status resp = 201"
        with created(6) obtain saved where "out' = Inr saved" by (cases out') simp_all
        with created(5) show "\<exists>data saved. CreateReport data (Inr saved) \<in> set calls" by auto
      qed
      from 1 2 3 show ?thesis by blast
    qed
  qed
  then show "status resp \<in> {400, 500, 201}"
    and "CreateReport data out \<in> set calls \<Longrightarrow>
           js_get data ''createdBy'' = Some (Str (POST_userId request))"
    and "status resp = 201 \<Longrightarrow> \<exists>data saved. CreateReport data (Inr saved) \<in> set calls"
    by blast+
qed

lemma PATCH_invalid_id:
  "connectToDatabase env w = (Inr u, w1) \<Longrightarrow> invalid_id id' \<Longrightarrow>
     PATCH env request id' (w, tr) =
       (error_response ''Invalid report ID'' 400, (w1, tr @ [ConnectToDatabase (Inr u)]))"
  by (simp add: PATCH_def invoke_eq)

lemma PATCH_unauthenticated:
  assumes conn: "connectToDatabase env w = (Inr u, w1)"
    and idok: "\<not> invalid_id id'"
    and body: "json_body request = Some body" "body \<noteq> Null" "body \<noteq> Undefined"
    and hdr: "header_userId request = ''placeholder-user-id''"
  shows "PATCH env request id' (w, tr) =
           (error_response ''Authentication required'' 401, (w1, tr @ [ConnectToDatabase (Inr u)]))"
proof -
  obtain t where gt: "js_get body ''title'' = Some t"
    using js_get_defined [OF body(2,3)] by blast
  obtain d where gd: "js_get body ''description'' = Some d"
    using js_get_defined [OF body(2,3)] by blast
  obtain c where gc: "js_get body ''category'' = Some c"
    using js_get_defined [OF body(2,3)] by blast
  obtain l where gl: "js_get body ''location'' = Some l"
    using js_get_defined [OF body(2,3)] by blast
  obtain a where ga: "js_get body ''address'' = Some a"
    using js_get_defined [OF body(2,3)] by blast
  obtain n where gn: "js_get body ''newImages'' = Some n"
    using js_get_defined [OF body(2,3)] by blast
  obtain i where gi: "js_get body ''imagesToDelete'' = Some i"
    using js_get_defined [OF body(2,3)] by blast
  show ?thesis
    using conn idok body(1) hdr gt gd gc gl ga gn gi
    by (simp add: PATCH_def invoke_eq)
qed

lemma DELETE_unauthenticated:
  assumes "connectToDatabase env w = (Inr u, w1)" "id' \<noteq> []"
    "header_userId request = ''placeholder-user-id''"
  shows "DELETE env request id' (w, tr) =
           (error_response ''Authentication required'' 401, (w1, tr @ [ConnectToDatabase (Inr u)]))"
  using assms by (simp add: DELETE_def invoke_eq)

text \<open>
  C8, as stated, fails: a \<^verbatim>\<open>PATCH\<close> without the header and with an empty id is answered
  400, because the id is checked before the header.
\<close>

theorem PATCH_no_header_invalid_id_counterexample:
  "user_id_header \<lparr>user_id_header = None, json_body = Some (Obj [(''title'', Str ''x'')]),
                    searchParams = []\<rparr> = None
   \<and> PATCH small_world
       \<lparr>user_id_header = None, json_body = Some (Obj [(''title'', Str ''x'')]), searchParams = []\<rparr>
       [] ((), [])
     = (error_response ''Invalid report ID'' 400, ((), [ConnectToDatabase (Inr ())]))
   \<and> status (fst (PATCH small_world
       \<lparr>user_id_header = None, json_body = Some (Obj [(''title'', Str ''x'')]), searchParams = []\<rparr>
       [] ((), []))) \<noteq> 401"
  by (simp add: PATCH_def invoke_def small_world_def invalid_id_def error_response_def
      json_response_def)

text \<open>
  C8, amended. For a request without the \<^verbatim>\<open>user-id\<close> header: \<^verbatim>\<open>PATCH\<close> answers 401
  once the database is connected, the id is valid and the body has parsed to anything but
  \<^verbatim>\<open>null\<close>; \<^verbatim>\<open>DELETE\<close> answers 401 once the database is connected and the id is not
  empty; both have made no other call. \<^verbatim>\<open>POST\<close> never answers 401; every
  \<^verbatim>\<open>createReport\<close> it calls, and it calls one whenever it answers 201, has the fixed
  identity \<^verbatim>\<open>000000000000000000000001\<close> as \<^verbatim>\<open>createdBy\<close>.
\<close>

theorem missing_user_id_header:
  assumes nohdr: "user_id_header request = None"
  shows "(connectToDatabase env w = (Inr u, w1) \<and> \<not> invalid_id id'
            \<and> json_body request = Some body \<and> body \<noteq> Null \<and> body \<noteq> Undefined
          \<longrightarrow> PATCH env request id' (w, []) =
                (error_response ''Authentication required'' 401,
                 (w1, [ConnectToDatabase (Inr u)])))
       \<and> (connectToDatabase env w = (Inr u, w1) \<and> id' \<noteq> []
          \<longrightarrow> DELETE env request id' (w, []) =
                (error_response ''Authentication required'' 401,
                 (w1, [ConnectToDatabase (Inr u)])))
       \<and> status (fst (POST env request (w, []))) \<noteq> 401
       \<and> (\<forall>data out. CreateReport data out \<in> set (snd (snd (POST env request (w, []))))
             \<longrightarrow> js_get data ''createdBy'' = Some (Str ''000000000000000000000001''))
       \<and> (status (fst (POST env request (w, []))) = 201
          \<longrightarrow> (\<exists>data saved.
                 CreateReport data (Inr saved) \<in> set (snd (snd (POST env request (w, []))))))"
proof -
  note hdr = header_userId_None [OF nohdr]
  obtain resp w' calls where run: "POST env request (w, []) = (resp, (w', calls))"
    by (metis surj_pair)
  note out = POST_outcome [OF run]
  have 1: "connectToDatabase env w = (Inr u, w1) \<and> \<not> invalid_id id'
            \<and> json_body request = Some body \<and> body \<noteq> Null \<and> body \<noteq> Undefined
          \<longrightarrow> PATCH env request id' (w, []) =
                (error_response ''Authentication required'' 401,
                 (w1, [ConnectToDatabase (Inr u)]))"
    using PATCH_unauthenticated [of env w u w1 id' request body "[]"] hdr by simp
  have 2: "connectToDatabase env w = (Inr u, w1) \<and> id' \<noteq> []
          \<longrightarrow> DELETE env request id' (w, []) =
                (error_response ''Authentication required'' 401,
                 (w1, [ConnectToDatabase (Inr u)]))"
    using DELETE_unauthenticated [of env w u w1 id' request "[]"] hdr by simp
  have 3: "status (fst (POST env request (w, []))) \<noteq> 401"
    using out(1) run by auto
  have 4: "\<forall>data out. CreateReport data out \<in> set (snd (snd (POST env request (w, []))))
             \<longrightarrow> js_get data ''createdBy'' = Some (Str ''000000000000000000000001'')"
    using out(2) run POST_userId_None [OF nohdr] by simp
  have 5: "status (fst (POST env request (w, []))) = 201
          \<longrightarrow> (\<exists>data saved.
                 CreateReport data (Inr saved) \<in> set (snd (snd (POST env request (w, [])))))"
    using out(3) run by simp
  from 1 2 3 4 5 show ?thesis by blast
qed

theorem missing_user_id_header_witness:
  "PATCH small_world
     \<lparr>user_id_header = None, json_body = Some (Obj [(''title'', Str ''x'')]), searchParams = []\<rparr>
     ''r1'' ((), [])
   = (error_response ''Authentication required'' 401, ((), [ConnectToDatabase (Inr ())]))
   \<and> DELETE small_world
     \<lparr>user_id_header = None, json_body = Some (Obj [(''title'', Str ''x'')]), searchParams = []\<rparr>
     ''r1'' ((), [])
   = (error_response ''Authentication required'' 401, ((), [ConnectToDatabase (Inr ())]))
   \<and> (\<exists>data saved.
         CreateReport data (Inr saved) \<in> set (snd (snd (POST small_world
           \<lparr>user_id_header = None,
            json_body = Some (Obj [(''title'', Str ''Overflowing bin''),
                                   (''description'', Str ''near market''),
                                   (''category'', Str ''garbage''),
                                   (''address'', Str ''Chandni Chowk''),
                                   (''newImages'', Arr [Str ''img1''])]),
            searchParams = []\<rparr> ((), []))))
         \<and> js_get data ''createdBy'' = Some (Str ''000000000000000000000001''))"
proof -
  let ?r1 = "\<lparr>user_id_header = None, json_body = Some (Obj [(''title'', Str ''x'')]),
              searchParams = []\<rparr>"
  let ?r2 = "\<lparr>user_id_header = None,
            json_body = Some (Obj [(''title'', Str ''Overflowing bin''),
                                   (''description'', Str ''near market''),
                                   (''category'', Str ''garbage''),
                                   (''address'', Str ''Chandni Chowk''),
                                   (''newImages'', Arr [Str ''img1''])]),
            searchParams = []\<rparr>"
  have conn: "connectToDatabase small_world () = (Inr (), ())"
    by (simp add: small_world_def)
  from missing_user_id_header [of ?r1 small_world "()" "()" "()" "''r1''" "Obj [(''title'', Str ''x'')]"]
    conn
  have 1: "PATCH small_world ?r1 ''r1'' ((), [])
     = (error_response ''Authentication required'' 401, ((), [ConnectToDatabase (Inr ())]))"
    and 2: "DELETE small_world ?r1 ''r1'' ((), [])
     = (error_response ''Authentication required'' 401, ((), [ConnectToDatabase (Inr ())]))"
    by (simp_all add: invalid_id_def)
  have st: "status (fst (POST small_world ?r2 ((), []))) = 201"
    by (simp add: POST_eval)
  from missing_user_id_header [of ?r2 small_world "()"] st
  have 3: "\<exists>data saved.
         CreateReport data (Inr saved) \<in> set (snd (snd (POST small_world ?r2 ((), []))))
         \<and> js_get data ''createdBy'' = Some (Str ''000000000000000000000001'')"
    by (metis request.select_convs(1))
  from 1 2 3 show ?thesis by blast
qed


subsection \<open>The runs of \<^verbatim>\<open>PATCH\<close>, branch by branch\<close>

lemma PATCH_images_and_update_cases
  [consumes 1, case_names delete_throws upload_throws upload_failed updated]:
  assumes run: "PATCH_images_and_update env id' t d c fl n i (w, tr) = (resp, (w', tr'))"
  obtains
    (delete_throws) "nonempty_elements env i = None" "resp = internal_server_error" "tr' = tr"
  | (upload_throws) dels douts where
      "nonempty_elements env i = Some dels" "length douts = length dels"
      "nonempty_elements env n = None" "resp = internal_server_error"
      "tr' = tr @ delete_events dels douts"
  | (upload_failed) dels douts imgs rs e outs where
      "nonempty_elements env i = Some dels" "length douts = length dels"
      "nonempty_elements env n = Some imgs" "length rs < length imgs" "length outs = length rs"
      "resp = error_response (''Failed to upload image: '' @ message e) 500"
      "tr' = (tr @ delete_events dels douts) @ map upload_ok (zip imgs rs)
                @ [UploadImage (imgs ! length rs) (Inl e)]
                @ delete_events (map (\<lambda>r. Str (public_id r)) rs) outs"
  | (updated) dels douts imgs rs out where
      "nonempty_elements env i = Some dels" "length douts = length dels"
      "nonempty_elements env n = Some imgs" "length rs = length imgs"
      "tr' = (tr @ delete_events dels douts) @ map upload_ok (zip imgs rs)
                @ [UpdateReport id' (update_data t d c fl i (map uploaded_image rs)) out]"
      "resp = (case out of
                 Inl e \<Rightarrow> internal_server_error
               | Inr None \<Rightarrow> error_response ''Failed to update report'' 500
               | Inr (Some updatedReport) \<Rightarrow>
                   (case formatted_report updatedReport of
                      None \<Rightarrow> internal_server_error
                    | Some formattedReport \<Rightarrow>
                        json_response
                          (Obj [(''success'', Bool True), (''report'', formattedReport)]) 200))"
proof (cases "nonempty_elements env i")
  case None
  with run have "resp = internal_server_error" "tr' = tr"
    by (simp_all add: PATCH_images_and_update_def)
  with None show ?thesis by (rule delete_throws)
next
  case (Some dels)
  from delete_all_log [of dels env w tr]
  obtain douts w1 where dl: "length douts = length dels"
    "delete_all env dels (w, tr) = (w1, tr @ delete_events dels douts)"
    by blast
  show ?thesis
  proof (cases "nonempty_elements env n")
    case None
    with run Some dl(2) have "resp = internal_server_error" "tr' = tr @ delete_events dels douts"
      by (simp_all add: PATCH_images_and_update_def Let_def)
    with Some dl(1) None show ?thesis by (intro upload_throws [of dels douts]) simp_all
  next
    case imgs: (Some imgs)
    obtain res w2 tr2 where up:
      "upload_all env imgs [] (w1, tr @ delete_events dels douts) = (res, (w2, tr2))"
      by (metis surj_pair)
    note log = upload_all_log [OF up]
    show ?thesis
    proof (cases res)
      case (Inl e)
      with log obtain rs outs where
        "length rs < length imgs" "length outs = length rs"
        "tr2 = (tr @ delete_events dels douts) @ map upload_ok (zip imgs rs)
               @ [UploadImage (imgs ! length rs) (Inl e)]
               @ delete_events (map (\<lambda>u. Str (publicId u)) (map uploaded_image rs)) outs"
        by auto
      moreover have "resp = error_response (''Failed to upload image: '' @ message e) 500"
        "tr' = tr2"
        using run Some dl(2) imgs up Inl by (simp_all add: PATCH_images_and_update_def Let_def)
      ultimately show ?thesis using Some dl(1) imgs
        by (intro upload_failed [of dels douts imgs rs outs e])
           (simp_all add: uploaded_image_def o_def)
    next
      case (Inr ups)
      with log have "\<exists>rs. length rs = length imgs \<and> ups = map uploaded_image rs
        \<and> tr2 = (tr @ delete_events dels douts) @ map upload_ok (zip imgs rs)"
        by simp
      then obtain rs where rs: "length rs = length imgs" "ups = map uploaded_image rs"
        "tr2 = (tr @ delete_events dels douts) @ map upload_ok (zip imgs rs)"
        by blast
      obtain out w3 where ur:
        "updateReport env id' (update_data t d c fl i ups) w2 = (out, w3)"
        by (metis surj_pair)
      have "tr' = tr2 @ [UpdateReport id' (update_data t d c fl i ups) out]"
        "resp = (case out of
                 Inl e \<Rightarrow> internal_server_error
               | Inr None \<Rightarrow> error_response ''Failed to update report'' 500
               | Inr (Some updatedReport) \<Rightarrow>
                   (case formatted_report updatedReport of
                      None \<Rightarrow> internal_server_error
                    | Some formattedReport \<Rightarrow>
                        json_response
                          (Obj [(''success'', Bool True), (''report'', formattedReport)]) 200))"
        using run Some dl(2) imgs up Inr ur
        by (auto simp add: PATCH_images_and_update_def Let_def invoke_eq
            split: sum.splits option.splits)
      with rs Some dl(1) imgs show ?thesis
        by (intro updated [of dels douts imgs rs out]) simp_all
    qed
  qed
qed

lemma PATCH_connect_failed:
  "connectToDatabase env w = (Inl e, w1) \<Longrightarrow>
     PATCH env request id' (w, tr) = (internal_server_error, (w1, tr @ [ConnectToDatabase (Inl e)]))"
  by (simp add: PATCH_def invoke_eq)

lemma PATCH_body_failed:
  "connectToDatabase env w = (Inr u, w1) \<Longrightarrow> \<not> invalid_id id' \<Longrightarrow>
     json_body request = None \<or> json_body request = Some Null \<or> json_body request = Some Undefined
     \<Longrightarrow> PATCH env request id' (w, tr) =
          (internal_server_error, (w1, tr @ [ConnectToDatabase (Inr u)]))"
  by (auto simp add: PATCH_def invoke_eq)

lemma PATCH_lookup:
  assumes "connectToDatabase env w = (Inr u, w1)" "\<not> invalid_id id'"
    "json_body request = Some body"
    "js_get body ''title'' = Some t" "js_get body ''description'' = Some d"
    "js_get body ''category'' = Some c" "js_get body ''location'' = Some l"
    "js_get body ''address'' = Some a" "js_get body ''newImages'' = Some n"
    "js_get body ''imagesToDelete'' = Some i"
    "header_userId request \<noteq> ''placeholder-user-id''"
    "getReportById env id' None w1 = (r, w2)"
  shows "PATCH env request id' (w, tr) =
     (case r of
        Inl e \<Rightarrow> (internal_server_error,
                   (w2, tr @ [ConnectToDatabase (Inr u), GetReportById id' None r]))
      | Inr None \<Rightarrow> (error_response ''Report not found'' 404,
                      (w2, tr @ [ConnectToDatabase (Inr u), GetReportById id' None r]))
      | Inr (Some currentReport) \<Rightarrow>
          PATCH_owned env id' (header_userId request) currentReport t d c l a n i
            (w2, tr @ [ConnectToDatabase (Inr u), GetReportById id' None r]))"
  using assms by (simp add: PATCH_def invoke_eq Let_def split: sum.splits option.splits)

lemma PATCH_owned_early:
  "createdBy cur = None \<Longrightarrow>
     PATCH_owned env id' uid cur t d c l a n i s = (internal_server_error, s)"
  "createdBy cur = Some owner \<Longrightarrow> user_id owner \<noteq> uid \<Longrightarrow>
     PATCH_owned env id' uid cur t d c l a n i s =
       (error_response ''Unauthorized: You can only edit your own reports'' 403, s)"
  "createdBy cur = Some owner \<Longrightarrow> user_id owner = uid \<Longrightarrow>
     truthy c \<and> c \<notin> set validCategories \<Longrightarrow>
     PATCH_owned env id' uid cur t d c l a n i s =
       (error_response ''Invalid category. Must be one of: garbage, waterlogging, other'' 400, s)"
  by (simp_all add: PATCH_owned_def)

lemma PATCH_owned_geocode:
  assumes "createdBy cur = Some owner" "user_id owner = uid"
    "\<not> (truthy c \<and> c \<notin> set validCategories)" "truthy a \<and> \<not> truthy l"
    "geocodeAddress env a w = (r, w1)"
  shows "PATCH_owned env id' uid cur t d c l a n i (w, tr) =
     (case r of
        Inl e \<Rightarrow> (error_response (''Failed to geocode address: '' @ message e) 400,
                   (w1, tr @ [GeocodeAddress a r]))
      | Inr coords \<Rightarrow>
          PATCH_images_and_update env id' t d c coords n i (w1, tr @ [GeocodeAddress a r]))"
  using assms by (auto simp add: PATCH_owned_def invoke_eq split: sum.splits)

lemma PATCH_owned_located:
  assumes "createdBy cur = Some owner" "user_id owner = uid"
    "\<not> (truthy c \<and> c \<notin> set validCategories)" "\<not> (truthy a \<and> \<not> truthy l)"
  shows "PATCH_owned env id' uid cur t d c l a n i s =
           PATCH_images_and_update env id' t d c l n i s"
  using assms by (auto simp add: PATCH_owned_def)


lemma PATCH_stages [consumes 1, case_names early late]:
  assumes run: "PATCH env request id' (w, []) = (resp, (w', calls))"
  obtains
    (early) "status resp \<in> {400, 401, 403, 404, 500}"
      "\<forall>ev \<in> set calls. \<not> is_upload ev \<and> \<not> is_write ev"
      "resp = error_response ''Invalid category. Must be one of: garbage, waterlogging, other'' 400
         \<longrightarrow> (\<exists>body c. json_body request = Some body \<and> js_get body ''category'' = Some c
                \<and> truthy c)"
  | (late) body t d c l a n i fl w1 pre where
      "json_body request = Some body"
      "js_get body ''title'' = Some t" "js_get body ''description'' = Some d"
      "js_get body ''category'' = Some c" "js_get body ''location'' = Some l"
      "js_get body ''address'' = Some a" "js_get body ''newImages'' = Some n"
      "js_get body ''imagesToDelete'' = Some i"
      "\<not> (truthy c \<and> c \<notin> set validCategories)"
      "\<forall>ev \<in> set pre. \<not> is_upload ev \<and> \<not> is_write ev"
      "fl = l \<or> (truthy a \<and> \<not> truthy l \<and> GeocodeAddress a (Inr fl) \<in> set pre)"
      "PATCH_images_and_update env id' t d c fl n i (w1, pre) = (resp, (w', calls))"
proof -
  let ?cat = "error_response ''Invalid category. Must be one of: garbage, waterlogging, other'' 400"
  note rs = error_response_def json_response_def internal_server_error_def
  obtain r0 w0 where conn: "connectToDatabase env w = (r0, w0)" by (metis surj_pair)
  show ?thesis
  proof (cases r0)
    case (Inl e)
    from run PATCH_connect_failed [OF conn [unfolded Inl], of request id' "[]"]
    have "resp = internal_server_error" "calls = [ConnectToDatabase (Inl e)]" by simp_all
    then show ?thesis by (intro early) (simp_all add: rs)
  next
    case (Inr u)
    note conn' = conn [unfolded Inr]
    show ?thesis
    proof (cases "invalid_id id'")
      case True
      from run PATCH_invalid_id [OF conn' True, of request "[]"]
      have "resp = error_response ''Invalid report ID'' 400" "calls = [ConnectToDatabase (Inr u)]"
        by simp_all
      then show ?thesis by (intro early) (simp_all add: rs)
    next
      case idok: False
      show ?thesis
      proof (cases "json_body request = None \<or> json_body request = Some Null
                     \<or> json_body request = Some Undefined")
        case True
        from run PATCH_body_failed [OF conn' idok True, of "[]"]
        have "resp = internal_server_error" "calls = [ConnectToDatabase (Inr u)]" by simp_all
        then show ?thesis by (intro early) (simp_all add: rs)
      next
        case False
        then obtain body where body: "json_body request = Some body"
          and nn: "body \<noteq> Null" "body \<noteq> Undefined" by auto
        obtain t where gt: "js_get body ''title'' = Some t"
          using js_get_defined [OF nn] by blast
        obtain d where gd: "js_get body ''description'' = Some d"
          using js_get_defined [OF nn] by blast
        obtain c where gc: "js_get body ''category'' = Some c"
          using js_get_defined [OF nn] by blast
        obtain l where gl: "js_get body ''location'' = Some l"
          using js_get_defined [OF nn] by blast
        obtain a where ga: "js_get body ''address'' = Some a"
          using js_get_defined [OF nn] by blast
        obtain n where gn: "js_get body ''newImages'' = Some n"
          using js_get_defined [OF nn] by blast
        obtain i where gi: "js_get body ''imagesToDelete'' = Some i"
          using js_get_defined [OF nn] by blast
        note g = gt gd gc gl ga gn gi
        show ?thesis
        proof (cases "header_userId request = ''placeholder-user-id''")
          case True
          from run PATCH_unauthenticated [OF conn' idok body nn True, of "[]"]
          have "resp = error_response ''Authentication required'' 401"
            "calls = [ConnectToDatabase (Inr u)]" by simp_all
          then show ?thesis by (intro early) (simp_all add: rs)
        next
          case auth: False
          obtain r w2 where look: "getReportById env id' None w0 = (r, w2)" by (metis surj_pair)
          let ?pre = "[ConnectToDatabase (Inr u), GetReportById id' None r]"
          note step = PATCH_lookup [OF conn' idok body g auth look, of "[]"]
          show ?thesis
          proof (cases r)
            case (Inl e)
            with run step have "resp = internal_server_error" "calls = ?pre" by simp_all
            then show ?thesis by (intro early) (simp_all add: rs)
          next
            case (Inr found)
            show ?thesis
            proof (cases found)
              case None
              with run step Inr have "resp = error_response ''Report not found'' 404"
                "calls = ?pre" by simp_all
              then show ?thesis by (intro early) (simp_all add: rs)
            next
              case (Some cur)
              with run step Inr
              have owned: "PATCH_owned env id' (header_userId request) cur t d c l a n i (w2, ?pre)
                             = (resp, (w', calls))" by simp
              show ?thesis
              proof (cases "createdBy cur")
                case None
                from owned
                have "resp = internal_server_error" "calls = ?pre"
                  by (simp_all add: PATCH_owned_early(1) [OF None])
                then show ?thesis by (intro early) (simp_all add: rs)
              next
                case own: (Some owner)
                show ?thesis
                proof (cases "user_id owner = header_userId request")
                  case False
                  from owned
                  have "resp = error_response
                          ''Unauthorized: You can only edit your own reports'' 403"
                    "calls = ?pre" by (simp_all add: PATCH_owned_early(2) [OF own False])
                  then show ?thesis by (intro early) (simp_all add: rs)
                next
                  case mine: True
                  show ?thesis
                  proof (cases "truthy c \<and> c \<notin> set validCategories")
                    case True
                    from owned
                    have "resp = ?cat" "calls = ?pre"
                      by (simp_all add: PATCH_owned_early(3) [OF own mine True])
                    with body gc True show ?thesis by (intro early) (simp_all add: rs)
                  next
                    case cat: False
                    show ?thesis
                    proof (cases "truthy a \<and> \<not> truthy l")
                      case geo: True
                      obtain gr w3 where ge: "geocodeAddress env a w2 = (gr, w3)"
                        by (metis surj_pair)
                      note gstep = PATCH_owned_geocode [OF own mine cat geo ge, of id' t d n i ?pre]
                      show ?thesis
                      proof (cases gr)
                        case (Inl e)
                        with owned gstep
                        have "resp = error_response
                                (''Failed to geocode address: '' @ message e) 400"
                          "calls = ?pre @ [GeocodeAddress a (Inl e)]" by simp_all
                        then show ?thesis by (intro early) (simp_all add: rs)
                      next
                        case (Inr fl)
                        with owned gstep
                        have upd: "PATCH_images_and_update env id' t d c fl n i
                                (w3, ?pre @ [GeocodeAddress a (Inr fl)]) = (resp, (w', calls))"
                          by simp
                        have p1: "\<forall>ev \<in> set (?pre @ [GeocodeAddress a (Inr fl)]).
                                    \<not> is_upload ev \<and> \<not> is_write ev" by simp
                        have p2: "fl = l \<or> (truthy a \<and> \<not> truthy l
                            \<and> GeocodeAddress a (Inr fl) \<in> set (?pre @ [GeocodeAddress a (Inr fl)]))"
                          using geo by simp
                        show ?thesis by (rule late [OF body g cat p1 p2 upd])
                      qed
                    next
                      case False
                      from owned
                      have upd: "PATCH_images_and_update env id' t d c l n i (w2, ?pre)
                                   = (resp, (w', calls))"
                        by (simp add: PATCH_owned_located [OF own mine cat False])
                      have p1: "\<forall>ev \<in> set ?pre. \<not> is_upload ev \<and> \<not> is_write ev" by simp
                      have p2: "l = l \<or> (truthy a \<and> \<not> truthy l
                            \<and> GeocodeAddress a (Inr l) \<in> set ?pre)" by simp
                      show ?thesis by (rule late [OF body g cat p1 p2 upd])
                    qed
                  qed
                qed
              qed
            qed
          qed
        qed
      qed
    qed
  qed
qed


subsection \<open>An upload that throws\<close>


lemma no_failure_in_ok:
  "ev \<in> set (map upload_ok ps) \<Longrightarrow> \<not> upload_failed ev \<and> \<not> is_write ev"
  by (auto simp add: upload_ok_def)









subsection \<open>What \<^verbatim>\<open>PATCH\<close> hands to \<^verbatim>\<open>updateReport\<close>\<close>

lemma update_data_title:
  "js_get (update_data t d c fl i ups) ''title'' = Some t"
  by (simp add: update_data_def if_defined_def)

lemma update_data_description:
  "js_get (update_data t d c fl i ups) ''description'' = Some d"
  by (simp add: update_data_def if_defined_def)

lemma update_data_category:
  "js_get (update_data t d c fl i ups) ''category'' = Some c"
  by (simp add: update_data_def if_defined_def)

lemma update_data_location:
  "js_get (update_data t d c fl i ups) ''location'' = Some fl"
  by (simp add: update_data_def if_defined_def)

lemma update_data_imagesToDelete:
  "js_get (update_data t d c fl i ups) ''imagesToDelete'' = Some i"
  by (simp add: update_data_def if_defined_def)

lemma update_data_newImages:
  "js_get (update_data t d c fl i ups) ''newImages''
     = Some (if ups = [] then Undefined else Arr (map image_obj ups))"
  by (simp add: update_data_def if_defined_def)

lemma nonempty_elements_truthy: "nonempty_elements env n = Some (x # xs) \<Longrightarrow> truthy n"
  by (auto simp add: nonempty_elements_def split: if_splits)

lemma nonempty_elements_Undefined: "nonempty_elements env Undefined = Some []"
  by (simp add: nonempty_elements_def)

lemma update_response_200:
  assumes "status (case out of
                 Inl e \<Rightarrow> internal_server_error
               | Inr None \<Rightarrow> error_response ''Failed to update report'' 500
               | Inr (Some updatedReport) \<Rightarrow>
                   (case formatted_report updatedReport of
                      None \<Rightarrow> internal_server_error
                    | Some formattedReport \<Rightarrow>
                        json_response
                          (Obj [(''success'', Bool True), (''report'', formattedReport)]) 200)) = 200"
  shows "\<exists>updated. out = Inr (Some updated)"
  using assms by (auto split: sum.splits option.splits)

lemma update_response_status:
  "status (case out of
                 Inl e \<Rightarrow> internal_server_error
               | Inr None \<Rightarrow> error_response ''Failed to update report'' 500
               | Inr (Some updatedReport) \<Rightarrow>
                   (case formatted_report updatedReport of
                      None \<Rightarrow> internal_server_error
                    | Some formattedReport \<Rightarrow>
                        json_response
                          (Obj [(''success'', Bool True), (''report'', formattedReport)]) 200))
     \<in> {200, 500}"
  by (auto split: sum.splits option.splits)

text \<open>
  C6. When \<^verbatim>\<open>PATCH\<close> answers 200, its last call, and its only write, is
  \<^verbatim>\<open>updateReport\<close> with an object every member of which comes from a member present in
  the body: \<^verbatim>\<open>title\<close>, \<^verbatim>\<open>description\<close>, \<^verbatim>\<open>category\<close> and \<^verbatim>\<open>imagesToDelete\<close>
  with the value the body gives them, \<^verbatim>\<open>location\<close> with the value of the body or with
  the coordinates of the address of the body, \<^verbatim>\<open>newImages\<close> only when the body has new
  images. For a body with \<^verbatim>\<open>description\<close> alone the object is that member alone, so
  nothing is said about title, category or images.
\<close>

theorem PATCH_merges_present_fields:
  assumes run: "PATCH env request id' (w, []) = (resp, (w', calls))"
    and st: "status resp = 200"
  shows "\<exists>body kvs updated.
      json_body request = Some body
      \<and> calls \<noteq> [] \<and> last calls = UpdateReport id' (Obj kvs) (Inr (Some updated))
      \<and> (\<forall>ev \<in> set (butlast calls). \<not> is_write ev)
      \<and> (\<forall>(k, v) \<in> set kvs. v \<noteq> Undefined \<and>
            (k \<in> {''title'', ''description'', ''category'', ''imagesToDelete''}
               \<and> js_get body k = Some v
             \<or> k = ''location''
               \<and> (js_get body ''location'' = Some v
                  \<or> (\<exists>a. js_get body ''address'' = Some a \<and> truthy a
                        \<and> GeocodeAddress a (Inr v) \<in> set calls))
             \<or> k = ''newImages'' \<and> (\<exists>n. js_get body ''newImages'' = Some n \<and> truthy n)))
      \<and> (\<forall>dsc. body = Obj [(''description'', dsc)] \<and> dsc \<noteq> Undefined
            \<longrightarrow> kvs = [(''description'', dsc)])"
  using run
proof (cases rule: PATCH_stages)
  case early
  with st show ?thesis by simp
next
  case (late body t d c l a n i fl w1 pre)
  from late(10) have pre: "\<forall>ev \<in> set pre. \<not> is_write ev" by blast
  from late(12) show ?thesis
  proof (cases rule: PATCH_images_and_update_cases)
    case delete_throws
    with st show ?thesis by simp
  next
    case (upload_throws dels douts)
    with st show ?thesis by simp
  next
    case (upload_failed dels douts imgs rs e outs)
    with st show ?thesis by simp
  next
    case (updated dels douts imgs rs out)
    from update_response_200 [OF st [unfolded updated(6)]]
    obtain upd where out: "out = Inr (Some upd)" by blast
    let ?ups = "map uploaded_image rs"
    let ?kvs = "if_defined ''title'' t @ if_defined ''description'' d
          @ if_defined ''category'' c @ if_defined ''location'' fl
          @ if_defined ''imagesToDelete'' i
          @ (if ?ups \<noteq> [] then [(''newImages'', Arr (map image_obj ?ups))] else [])"
    have data: "update_data t d c fl i ?ups = Obj ?kvs"
      by (simp add: update_data_def)
    have c: "calls = ((pre @ delete_events dels douts) @ map upload_ok (zip imgs rs))
                     @ [UpdateReport id' (Obj ?kvs) (Inr (Some upd))]"
      using updated(5) out data by simp
    have 1: "calls \<noteq> []" "last calls = UpdateReport id' (Obj ?kvs) (Inr (Some upd))"
      "butlast calls = (pre @ delete_events dels douts) @ map upload_ok (zip imgs rs)"
      unfolding c by (rule snoc_eq_iff_butlast [THEN iffD1, THEN conjunct1, OF refl],
          rule last_snoc, rule butlast_snoc)
    have 2: "\<forall>ev \<in> set (butlast calls). \<not> is_write ev"
      unfolding 1(3) using pre delete_events_props no_failure_in_ok by auto
    have geo: "fl = l \<or> (truthy a \<and> GeocodeAddress a (Inr fl) \<in> set calls)"
      using late(11) unfolding c by auto
    have new: "?ups \<noteq> [] \<longrightarrow> truthy n"
    proof
      assume "?ups \<noteq> []"
      with updated(4) obtain x xs where "imgs = x # xs" by (cases imgs) auto
      with updated(3) show "truthy n" using nonempty_elements_truthy by blast
    qed
    have 3: "\<forall>(k, v) \<in> set ?kvs. v \<noteq> Undefined \<and>
            (k \<in> {''title'', ''description'', ''category'', ''imagesToDelete''}
               \<and> js_get body k = Some v
             \<or> k = ''location''
               \<and> (js_get body ''location'' = Some v
                  \<or> (\<exists>a. js_get body ''address'' = Some a \<and> truthy a
                        \<and> GeocodeAddress a (Inr v) \<in> set calls))
             \<or> k = ''newImages'' \<and> (\<exists>n. js_get body ''newImages'' = Some n \<and> truthy n))"
      using late(2-8) geo new
      by (auto simp add: if_defined_def split: if_splits)
    have 4: "\<forall>dsc. body = Obj [(''description'', dsc)] \<and> dsc \<noteq> Undefined
            \<longrightarrow> ?kvs = [(''description'', dsc)]"
    proof (intro allI impI)
      fix dsc assume b: "body = Obj [(''description'', dsc)] \<and> dsc \<noteq> Undefined"
      with late(2-8) have v: "t = Undefined" "d = dsc" "c = Undefined" "l = Undefined"
        "a = Undefined" "n = Undefined" "i = Undefined" by simp_all
      with late(11) have fl: "fl = Undefined" by simp
      from updated(3) v(6) have "imgs = []" by (simp add: nonempty_elements_Undefined)
      with updated(4) have "rs = []" by simp
      with v fl b show "?kvs = [(''description'', dsc)]" by (simp add: if_defined_def)
    qed
    from late(1) 1(1,2) 2 3 4 show ?thesis by blast
  qed
qed



theorem PATCH_merges_present_fields_witness:
  "PATCH small_world
      \<lparr>user_id_header = Some ''u1'',
       json_body = Some (Obj [(''description'', Str ''behind the market'')]),
       searchParams = []\<rparr> ''r1'' ((), [])
   = (json_response (Obj [(''success'', Bool True),
                          (''report'', the (formatted_report stored_report))]) 200,
      ((), [ConnectToDatabase (Inr ()),
            GetReportById ''r1'' None (Inr (Some stored_report)),
            UpdateReport ''r1'' (Obj [(''description'', Str ''behind the market'')])
              (Inr (Some stored_report))]))
   \<and> (\<exists>kvs updated.
         last [ConnectToDatabase (Inr ()),
               GetReportById ''r1'' None (Inr (Some stored_report)),
               UpdateReport ''r1'' (Obj [(''description'', Str ''behind the market'')])
                 (Inr (Some stored_report))]
           = UpdateReport ''r1'' (Obj kvs) (Inr (Some updated))
         \<and> kvs = [(''description'', Str ''behind the market'')])"
  (is "PATCH small_world ?req ''r1'' ((), []) = (?resp, ((), ?calls)) \<and> ?only")
proof -
  have run: "PATCH small_world ?req ''r1'' ((), []) = (?resp, ((), ?calls))"
    by (simp add: PATCH_eval)
  have st: "status ?resp = 200" by simp
  from PATCH_merges_present_fields [OF run st] have ?only
  proof (elim exE conjE)
    fix body kvs updated
    assume b: "json_body ?req = Some body"
      and l: "last ?calls = UpdateReport ''r1'' (Obj kvs) (Inr (Some updated))"
      and d: "\<forall>dsc. body = Obj [(''description'', dsc)] \<and> dsc \<noteq> Undefined
            \<longrightarrow> kvs = [(''description'', dsc)]"
    from b have "body = Obj [(''description'', Str ''behind the market'')]" by simp
    with d [rule_format, of "Str ''behind the market''"]
    have "kvs = [(''description'', Str ''behind the market'')]" by simp
    with l show ?only by (intro exI conjI)
  qed
  with run show ?thesis by (rule conjI)
qed



lemma no_write_no_update:
  assumes "\<forall>ev \<in> set xs. \<not> is_write ev"
  shows "UpdateReport i data out \<notin> set xs"
proof
  assume "UpdateReport i data out \<in> set xs"
  with assms have "\<not> is_write (UpdateReport i data out)" by (rule bspec)
  then show False by simp
qed

text \<open>
  C9. A \<^verbatim>\<open>PATCH\<close> whose body has \<^verbatim>\<open>category: ""\<close> is never answered with the 400 of
  the invalid category, since the enum is consulted for truthy categories only; every
  \<^verbatim>\<open>updateReport\<close> the request calls, and it calls one whenever it answers 200, has the
  empty string as \<^verbatim>\<open>category\<close>, which is not in the enum.
\<close>

theorem PATCH_empty_category:
  assumes run: "PATCH env request id' (w, []) = (resp, (w', calls))"
    and body: "json_body request = Some body" "js_get body ''category'' = Some (Str [])"
  shows "resp \<noteq> error_response
                   ''Invalid category. Must be one of: garbage, waterlogging, other'' 400
       \<and> (\<forall>i data out. UpdateReport i data out \<in> set calls
             \<longrightarrow> js_get data ''category'' = Some (Str []))
       \<and> (status resp = 200
             \<longrightarrow> (\<exists>data updated. UpdateReport id' data (Inr (Some updated)) \<in> set calls))
       \<and> Str [] \<notin> set validCategories"
  using run
proof (cases rule: PATCH_stages)
  case early
  from early(3) body have "resp \<noteq> error_response
                   ''Invalid category. Must be one of: garbage, waterlogging, other'' 400"
    by auto
  moreover from early(2) have "\<forall>ev \<in> set calls. \<not> is_write ev" by blast
  then have "\<forall>i data out. UpdateReport i data out \<notin> set calls"
    using no_write_no_update by blast
  moreover from early(1) have "status resp \<noteq> 200" by auto
  ultimately show ?thesis by (simp add: validCategories_def)
next
  case (late body' t d c l a n i fl w1 pre)
  from late(1,4) body have c: "c = Str []" by simp
  from late(10) have pre: "\<forall>ev \<in> set pre. \<not> is_write ev" by blast
  note rs = error_response_def json_response_def internal_server_error_def
  from late(12) show ?thesis
  proof (cases rule: PATCH_images_and_update_cases)
    case delete_throws
    from delete_throws(3) pre have "\<forall>i data out. UpdateReport i data out \<notin> set calls"
      using no_write_no_update by blast
    with delete_throws(2) show ?thesis by (simp add: validCategories_def rs)
  next
    case (upload_throws dels douts)
    have "\<forall>ev \<in> set calls. \<not> is_write ev"
      unfolding upload_throws(5) using pre delete_events_props by auto
    then have "\<forall>i data out. UpdateReport i data out \<notin> set calls"
      using no_write_no_update by blast
    with upload_throws(4) show ?thesis by (simp add: validCategories_def rs)
  next
    case (upload_failed dels douts imgs rs' e outs)
    have "\<forall>ev \<in> set calls. \<not> is_write ev"
      unfolding upload_failed(7) using pre delete_events_props no_failure_in_ok by auto
    then have "\<forall>i data out. UpdateReport i data out \<notin> set calls"
      using no_write_no_update by blast
    with upload_failed(6) show ?thesis by (simp add: validCategories_def rs)
  next
    case (updated dels douts imgs rs' out)
    let ?data = "update_data t d c fl i (map uploaded_image rs')"
    have before: "\<forall>ev \<in> set ((pre @ delete_events dels douts) @ map upload_ok (zip imgs rs')).
                    \<not> is_write ev"
      using pre delete_events_props no_failure_in_ok by auto
    have 1: "\<forall>j data out'. UpdateReport j data out' \<in> set calls
             \<longrightarrow> js_get data ''category'' = Some (Str [])"
    proof (intro allI impI)
      fix j data out' assume "UpdateReport j data out' \<in> set calls"
      then have "UpdateReport j data out' = UpdateReport id' ?data out
                 \<or> UpdateReport j data out'
                    \<in> set ((pre @ delete_events dels douts) @ map upload_ok (zip imgs rs'))"
        unfolding updated(5) by auto
      with no_write_no_update [OF before, of j data out'] have "data = ?data" by simp
      then show "js_get data ''category'' = Some (Str [])"
        by (simp add: update_data_category c)
    qed
    have 2: "status resp = 200
             \<longrightarrow> (\<exists>data updated. UpdateReport id' data (Inr (Some updated)) \<in> set calls)"
    proof
      assume st: "status resp = 200"
      from update_response_200 [OF st [unfolded updated(6)]]
      obtain upd where "out = Inr (Some upd)" by blast
      with updated(5) show "\<exists>data updated. UpdateReport id' data (Inr (Some updated)) \<in> set calls"
        by auto
    qed
    have 3: "resp \<noteq> error_response
                   ''Invalid category. Must be one of: garbage, waterlogging, other'' 400"
    proof
      assume "resp = error_response
                   ''Invalid category. Must be one of: garbage, waterlogging, other'' 400"
      then have "status resp = 400" by simp
      with update_response_status [of out] updated(6) show False by simp
    qed
    from 1 2 3 show ?thesis by (simp add: validCategories_def)
  qed
qed

theorem PATCH_empty_category_witness:
  "PATCH small_world
      \<lparr>user_id_header = Some ''u1'', json_body = Some (Obj [(''category'', Str [])]),
       searchParams = []\<rparr> ''r1'' ((), [])
   = (json_response (Obj [(''success'', Bool True),
                          (''report'', the (formatted_report stored_report))]) 200,
      ((), [ConnectToDatabase (Inr ()),
            GetReportById ''r1'' None (Inr (Some stored_report)),
            UpdateReport ''r1'' (Obj [(''category'', Str [])]) (Inr (Some stored_report))]))
   \<and> js_get (Obj [(''category'', Str [])]) ''category'' = Some (Str [])
   \<and> Str [] \<notin> set validCategories"
  (is "PATCH small_world ?req ''r1'' ((), []) = (?resp, ((), ?calls)) \<and> ?cat \<and> ?enum")
proof -
  have run: "PATCH small_world ?req ''r1'' ((), []) = (?resp, ((), ?calls))"
    by (simp add: PATCH_eval)
  have b: "json_body ?req = Some (Obj [(''category'', Str [])])" by simp
  have c: "js_get (Obj [(''category'', Str [])]) ''category'' = Some (Str [])" by simp
  note inst = PATCH_empty_category [OF run b c]
  from inst have all: "\<forall>i data out. UpdateReport i data out \<in> set ?calls
             \<longrightarrow> js_get data ''category'' = Some (Str [])"
    by (rule conjunct1 [OF conjunct2])
  have mem: "UpdateReport ''r1'' (Obj [(''category'', Str [])]) (Inr (Some stored_report))
               \<in> set ?calls"
    by simp
  from all [rule_format, OF mem] have ?cat .
  moreover from inst have ?enum by (rule conjunct2 [OF conjunct2 [OF conjunct2]])
  ultimately show ?thesis using run by (intro conjI)
qed

end
